theory Spec2Isabelle
  imports Complex_Main "HOL-Library.AList"
begin

section \<open>Call-center analytics: tables, configuration and errors\<close>

text \<open>
  The analytics pipeline works on pandas data frames. A data frame is modelled by its
  number of rows (the length of its index) and its columns in insertion order. A column
  has one of the four kinds of the data model: numeric (a float or integer column, a
  missing value is NaN), categorical (dtype object), datetime and boolean. Floating-point
  numbers are idealised as real numbers; NaN is \<open>None\<close>. Column names are unique, as
  in the data model, so a column is looked up by its name.
\<close>

datatype error =
    ValueError string
  | KeyError string
  | TypeError
  | IndexError
  | ZeroDivisionError

datatype column =
    NumCol "real option list"
  | ObjCol "string option list"
  | DateCol "int option list"
  | BoolCol "bool list"

record table =
  nrows :: nat
  cols :: "(string \<times> column) list"

text \<open>The configuration dictionary, with the entries the analysers read. An entry that
  is absent from the dictionary is \<open>None\<close>; each analyser supplies its own default.\<close>

record config =
  outlier_std_cfg :: "real option"
  min_data_points_cfg :: "int option"
  correlation_threshold_cfg :: "real option"
  kpi_thresholds_cfg :: "(string \<rightharpoonup> (string \<rightharpoonup> real)) option"

definition column_names :: "table \<Rightarrow> string list" where
  "column_names df = map fst (cols df)"

definition has_column :: "table \<Rightarrow> string \<Rightarrow> bool" where
  "has_column df c = (c \<in> set (column_names df))"

definition get_column :: "table \<Rightarrow> string \<Rightarrow> column option" where
  "get_column df c = map_of (cols df) c"

definition column_length :: "column \<Rightarrow> nat" where
  "column_length c = (case c of NumCol vs \<Rightarrow> length vs | ObjCol vs \<Rightarrow> length vs
                      | DateCol vs \<Rightarrow> length vs | BoolCol vs \<Rightarrow> length vs)"

text \<open>A well-formed data frame: unique column names, every column as long as the index.\<close>

definition wf_table :: "table \<Rightarrow> bool" where
  "wf_table df = (distinct (column_names df) \<and>
                  list_all (\<lambda>(n, c). column_length c = nrows df) (cols df))"

subsection \<open>Floating-point results\<close>

text \<open>
  A float that a computation returns is a real number, an infinity or NaN. numpy's
  arithmetic does not raise: a division by zero gives an infinity, or NaN for 0/0, and
  every comparison with NaN is false.
\<close>

datatype fl = Fin real | PInf | NInf | NaN

definition of_opt :: "real option \<Rightarrow> fl" where
  "of_opt v = (case v of None \<Rightarrow> NaN | Some x \<Rightarrow> Fin x)"

fun fneg :: "fl \<Rightarrow> fl" where
  "fneg (Fin a) = Fin (- a)"
| "fneg PInf = NInf"
| "fneg NInf = PInf"
| "fneg NaN = NaN"

fun fadd :: "fl \<Rightarrow> fl \<Rightarrow> fl" where
  "fadd (Fin a) (Fin b) = Fin (a + b)"
| "fadd NaN _ = NaN"
| "fadd _ NaN = NaN"
| "fadd PInf NInf = NaN"
| "fadd NInf PInf = NaN"
| "fadd PInf _ = PInf"
| "fadd NInf _ = NInf"
| "fadd _ PInf = PInf"
| "fadd _ NInf = NInf"

definition fsub :: "fl \<Rightarrow> fl \<Rightarrow> fl" where
  "fsub a b = fadd a (fneg b)"

text \<open>The sign of a float: None for NaN.\<close>

fun fsign :: "fl \<Rightarrow> int option" where
  "fsign (Fin a) = Some (if a < 0 then - 1 else if a = 0 then 0 else 1)"
| "fsign PInf = Some 1"
| "fsign NInf = Some (- 1)"
| "fsign NaN = None"

definition signed_inf :: "int \<Rightarrow> fl" where
  "signed_inf s = (if s < 0 then NInf else PInf)"

fun fmul :: "fl \<Rightarrow> fl \<Rightarrow> fl" where
  "fmul (Fin a) (Fin b) = Fin (a * b)"
| "fmul a b = (case (fsign a, fsign b) of
                 (Some s, Some t) \<Rightarrow> (if s * t = 0 then NaN else signed_inf (s * t))
               | _ \<Rightarrow> NaN)"

fun fdiv :: "fl \<Rightarrow> fl \<Rightarrow> fl" where
  "fdiv (Fin a) (Fin b) =
     (if b = 0 then (if a = 0 then NaN else if 0 < a then PInf else NInf) else Fin (a / b))"
| "fdiv NaN _ = NaN"
| "fdiv _ NaN = NaN"
| "fdiv (Fin a) _ = Fin 0"
| "fdiv a (Fin b) = (if b < 0 then fneg a else a)"
| "fdiv _ _ = NaN"

fun fabs :: "fl \<Rightarrow> fl" where
  "fabs (Fin a) = Fin \<bar>a\<bar>"
| "fabs PInf = PInf"
| "fabs NInf = PInf"
| "fabs NaN = NaN"

fun fgt :: "fl \<Rightarrow> fl \<Rightarrow> bool" where
  "fgt (Fin a) (Fin b) = (b < a)"
| "fgt NaN _ = False"
| "fgt _ NaN = False"
| "fgt PInf b = (b \<noteq> PInf)"
| "fgt a NInf = (a \<noteq> NInf)"
| "fgt _ _ = False"

definition fge :: "fl \<Rightarrow> fl \<Rightarrow> bool" where
  "fge a b = (a \<noteq> NaN \<and> b \<noteq> NaN \<and> (a = b \<or> fgt a b))"

subsection \<open>Series reductions\<close>

text \<open>pandas reductions skip missing values (\<open>skipna=True\<close>).\<close>

fun dropna :: "'a option list \<Rightarrow> 'a list" where
  "dropna [] = []"
| "dropna (None # vs) = dropna vs"
| "dropna (Some x # vs) = x # dropna vs"

definition mean_of :: "real list \<Rightarrow> real" where
  "mean_of xs = sum_list xs / real (length xs)"

definition series_mean :: "real option list \<Rightarrow> real option" where
  "series_mean vs = (let xs = dropna vs in if xs = [] then None else Some (mean_of xs))"

text \<open>The sum of squared deviations from the mean, and the sample standard deviation
  (\<open>ddof=1\<close>): undefined for fewer than two values.\<close>

definition ssq_dev :: "real list \<Rightarrow> real" where
  "ssq_dev xs = sum_list (map (\<lambda>x. (x - mean_of xs)\<^sup>2) xs)"

definition series_std :: "real option list \<Rightarrow> real option" where
  "series_std vs = (let xs = dropna vs in
     if length xs < 2 then None else Some (sqrt (ssq_dev xs / real (length xs - 1))))"

definition series_median :: "real option list \<Rightarrow> real option" where
  "series_median vs = (let xs = sort (dropna vs); n = length xs in
     if n = 0 then None
     else if odd n then Some (xs ! (n div 2))
     else Some ((xs ! (n div 2 - 1) + xs ! (n div 2)) / 2))"

definition series_min :: "real option list \<Rightarrow> real option" where
  "series_min vs = (case dropna vs of [] \<Rightarrow> None | x # xs \<Rightarrow> Some (fold min xs x))"

definition series_max :: "real option list \<Rightarrow> real option" where
  "series_max vs = (case dropna vs of [] \<Rightarrow> None | x # xs \<Rightarrow> Some (fold max xs x))"

text \<open>
  The values of a column as a numeric series, for arithmetic and reductions: a numeric
  column as it is, a boolean column as 0 and 1. A categorical or datetime column has no
  numeric reading; a numeric reduction over it is a TypeError.
\<close>

definition is_numeric_dtype :: "column \<Rightarrow> bool" where
  "is_numeric_dtype c = (case c of NumCol _ \<Rightarrow> True | BoolCol _ \<Rightarrow> True | _ \<Rightarrow> False)"

definition numeric_values :: "column \<Rightarrow> error + real option list" where
  "numeric_values c = (case c of
       NumCol vs \<Rightarrow> Inr vs
     | BoolCol bs \<Rightarrow> Inr (map (\<lambda>b. Some (if b then 1 else 0)) bs)
     | _ \<Rightarrow> Inl TypeError)"

text \<open>\<open>df[name]\<close> read as a numeric series.\<close>

definition numeric_series :: "table \<Rightarrow> string \<Rightarrow> error + real option list" where
  "numeric_series df name = (case get_column df name of
       None \<Rightarrow> Inl (KeyError name)
     | Some c \<Rightarrow> numeric_values c)"

text \<open>\<open>df.select_dtypes(include=[np.number]).columns\<close>: boolean columns are not included.\<close>

definition numeric_columns :: "table \<Rightarrow> string list" where
  "numeric_columns df = map fst (filter (\<lambda>(n, c). case c of NumCol _ \<Rightarrow> True | _ \<Rightarrow> False) (cols df))"

definition categorical_columns :: "table \<Rightarrow> string list" where
  "categorical_columns df = map fst (filter (\<lambda>(n, c). case c of ObjCol _ \<Rightarrow> True | _ \<Rightarrow> False) (cols df))"

text \<open>Sequencing of computations that may raise.\<close>

definition bind_err :: "error + 'a \<Rightarrow> ('a \<Rightarrow> error + 'b) \<Rightarrow> error + 'b" where
  "bind_err m f = (case m of Inl e \<Rightarrow> Inl e | Inr x \<Rightarrow> f x)"

subsection \<open>Formatting integers, as an f-string does\<close>

fun digit_char :: "nat \<Rightarrow> char" where
  "digit_char n = char_of (48 + n)"

fun string_of_nat :: "nat \<Rightarrow> string" where
  "string_of_nat n = (if n < 10 then [digit_char n]
                      else string_of_nat (n div 10) @ [digit_char (n mod 10)])"

declare string_of_nat.simps [simp del]

definition string_of_int :: "int \<Rightarrow> string" where
  "string_of_int i = (if i < 0 then CHR ''-'' # string_of_nat (nat (- i)) else string_of_nat (nat i))"

section \<open>Validator\<close>

text \<open>\<open>DataValidator.__init__\<close>: \<open>config.get('analysis', {}).get('min_data_points', 30)\<close>.\<close>

definition min_data_points :: "config \<Rightarrow> int" where
  "min_data_points cfg = (case min_data_points_cfg cfg of None \<Rightarrow> 30 | Some m \<Rightarrow> m)"

text \<open>\<open>validate_sufficient_data\<close>: the row count against the configured minimum.\<close>

definition validate_sufficient_data :: "config \<Rightarrow> table \<Rightarrow> bool \<times> string" where
  "validate_sufficient_data cfg df =
     (let row_count = nrows df in
      if int row_count < min_data_points cfg
      then (False, ''Insufficient data: '' @ string_of_nat row_count @ '' rows (minimum: ''
                     @ string_of_int (min_data_points cfg) @ '')'')
      else (True, ''Sufficient data: '' @ string_of_nat row_count @ '' rows''))"

subsection \<open>Quality report\<close>

text \<open>The cells of a row, for the comparison of whole rows.\<close>

datatype cell = NumCell "real option" | ObjCell "string option" | DateCell "int option"
  | BoolCell bool

definition column_cells :: "column \<Rightarrow> cell list" where
  "column_cells c = (case c of NumCol vs \<Rightarrow> map NumCell vs | ObjCol vs \<Rightarrow> map ObjCell vs
                     | DateCol vs \<Rightarrow> map DateCell vs | BoolCol vs \<Rightarrow> map BoolCell vs)"

text \<open>Row \<open>i\<close> of the table; a column too short for the index has no cell there.\<close>

definition row_at :: "table \<Rightarrow> nat \<Rightarrow> cell option list" where
  "row_at df i = map (\<lambda>(n, c). if i < column_length c then Some (column_cells c ! i) else None)
                   (cols df)"

text \<open>\<open>df.isnull().sum()\<close>: the missing values of each column.\<close>

definition count_missing :: "column \<Rightarrow> nat" where
  "count_missing c = (case c of
       NumCol vs \<Rightarrow> length (filter (\<lambda>v. v = None) vs)
     | ObjCol vs \<Rightarrow> length (filter (\<lambda>v. v = None) vs)
     | DateCol vs \<Rightarrow> length (filter (\<lambda>v. v = None) vs)
     | BoolCol vs \<Rightarrow> 0)"

text \<open>\<open>df.duplicated().sum()\<close>: the rows equal to an earlier row; none in an empty frame
  (no rows or no columns).\<close>

definition duplicated_count :: "table \<Rightarrow> nat" where
  "duplicated_count df =
     (if nrows df = 0 \<or> cols df = [] then 0
      else length (filter (\<lambda>i. row_at df i \<in> set (map (row_at df) [0..<i])) [0..<nrows df]))"

record column_stats =
  stat_mean :: fl
  stat_median :: fl
  stat_std :: fl
  stat_min :: fl
  stat_max :: fl

definition series_stats :: "real option list \<Rightarrow> column_stats" where
  "series_stats vs = \<lparr>stat_mean = of_opt (series_mean vs), stat_median = of_opt (series_median vs),
     stat_std = of_opt (series_std vs), stat_min = of_opt (series_min vs),
     stat_max = of_opt (series_max vs)\<rparr>"

record quality_report =
  total_rows :: nat
  total_columns :: nat
  missing_values :: "(string \<times> nat) list"
  missing_percentage :: "(string \<times> fl) list"
  duplicate_rows :: nat
  report_numeric_columns :: "string list"
  report_categorical_columns :: "string list"
  numeric_stats :: "(string \<times> column_stats) list"

text \<open>The loop over \<open>report['numeric_columns']\<close>: \<open>df[col]\<close> and its five statistics.\<close>

fun stats_loop :: "table \<Rightarrow> string list \<Rightarrow> (string \<times> column_stats) list
    \<Rightarrow> error + (string \<times> column_stats) list" where
  "stats_loop df [] acc = Inr acc"
| "stats_loop df (col # rest) acc =
     bind_err (numeric_series df col) (\<lambda>vs.
       stats_loop df rest (AList.update col (series_stats vs) acc))"

definition check_data_quality :: "table \<Rightarrow> error + quality_report" where
  "check_data_quality df =
     bind_err (stats_loop df (numeric_columns df) []) (\<lambda>stats.
       Inr \<lparr>total_rows = nrows df,
            total_columns = length (cols df),
            missing_values = map (\<lambda>(n, c). (n, count_missing c)) (cols df),
            missing_percentage =
              map (\<lambda>(n, c). (n, fmul (fdiv (Fin (real (count_missing c))) (Fin (real (nrows df))))
                                  (Fin 100))) (cols df),
            duplicate_rows = duplicated_count df,
            report_numeric_columns = numeric_columns df,
            report_categorical_columns = categorical_columns df,
            numeric_stats = stats\<rparr>)"

section \<open>Cleaner\<close>

text \<open>\<open>DataCleaner.__init__\<close>: \<open>config.get('analysis', {}).get('outlier_std', 3)\<close>.\<close>

definition outlier_std :: "config \<Rightarrow> real" where
  "outlier_std cfg = (case outlier_std_cfg cfg of None \<Rightarrow> 3 | Some s \<Rightarrow> s)"

text \<open>
  \<open>np.abs((df[col] - df[col].mean()) / df[col].std())\<close> at one value of the column. The
  mean is NaN for a column without values and the standard deviation for a column with
  fewer than two; the division is numpy's and does not raise. Mean and deviation are the
  exact ones here; the machine rounds them, which changes single entries of a mask, not
  the way the masks are combined.
\<close>

definition abs_zscore :: "real option \<Rightarrow> real option \<Rightarrow> real option \<Rightarrow> fl" where
  "abs_zscore m s v = fabs (fdiv (fsub (of_opt v) (of_opt m)) (of_opt s))"

text \<open>\<open>z_scores > self.outlier_std\<close>.\<close>

definition outlier_mask :: "real \<Rightarrow> real option list \<Rightarrow> bool list" where
  "outlier_mask limit vs =
     map (\<lambda>v. fgt (abs_zscore (series_mean vs) (series_std vs) v) (Fin limit)) vs"

text \<open>The loop of \<open>detect_outliers\<close>: a column is checked when it is in the table and its
  dtype is numeric; \<open>outliers[col] = ...\<close> is \<open>AList.update\<close>.\<close>

fun detect_loop :: "real \<Rightarrow> table \<Rightarrow> string list \<Rightarrow> (string \<times> bool list) list
    \<Rightarrow> (string \<times> bool list) list" where
  "detect_loop limit df [] outliers = outliers"
| "detect_loop limit df (col # rest) outliers =
     (case get_column df col of
        None \<Rightarrow> detect_loop limit df rest outliers
      | Some c \<Rightarrow>
         (case numeric_values c of
            Inr vs \<Rightarrow> detect_loop limit df rest (AList.update col (outlier_mask limit vs) outliers)
          | Inl e \<Rightarrow> detect_loop limit df rest outliers))"

definition detect_outliers :: "config \<Rightarrow> table \<Rightarrow> string list option \<Rightarrow> (string \<times> bool list) list"
  where
  "detect_outliers cfg df columns =
     (let columns' = (case columns of None \<Rightarrow> numeric_columns df | Some cs \<Rightarrow> cs)
      in detect_loop (outlier_std cfg) df columns' [])"

text \<open>The loop of \<open>remove_outliers\<close>: \<open>mask &= ~outlier_mask\<close> for every checked column.\<close>

fun mask_loop :: "(string \<times> bool list) list \<Rightarrow> bool list \<Rightarrow> bool list" where
  "mask_loop [] keep = keep"
| "mask_loop ((col, out_mask) # rest) keep =
     mask_loop rest (map2 (\<lambda>m out. m \<and> \<not> out) keep out_mask)"

text \<open>Boolean indexing \<open>df[mask]\<close>: the rows whose mask entry is true, in order.\<close>

definition select :: "bool list \<Rightarrow> 'a list \<Rightarrow> 'a list" where
  "select keep xs = map fst (filter snd (zip xs keep))"

definition select_column :: "bool list \<Rightarrow> column \<Rightarrow> column" where
  "select_column keep c = (case c of
       NumCol vs \<Rightarrow> NumCol (select keep vs)
     | ObjCol vs \<Rightarrow> ObjCol (select keep vs)
     | DateCol vs \<Rightarrow> DateCol (select keep vs)
     | BoolCol vs \<Rightarrow> BoolCol (select keep vs))"

definition select_rows :: "table \<Rightarrow> bool list \<Rightarrow> table" where
  "select_rows df keep =
     \<lparr>nrows = length (filter (\<lambda>b. b) (take (nrows df) keep)),
      cols = map (\<lambda>(n, c). (n, select_column keep c)) (cols df)\<rparr>"

definition remove_outliers :: "config \<Rightarrow> table \<Rightarrow> string list option \<Rightarrow> table" where
  "remove_outliers cfg df columns =
     (let outliers = detect_outliers cfg df columns;
          keep = mask_loop outliers (replicate (nrows df) True)
      in select_rows df keep)"

text \<open>
  The reading of the specification: the table made of the rows at the given positions,
  in the given order.
\<close>

definition pick :: "nat list \<Rightarrow> 'a list \<Rightarrow> 'a list" where
  "pick idxs xs = map (\<lambda>i. xs ! i) idxs"

definition pick_column :: "nat list \<Rightarrow> column \<Rightarrow> column" where
  "pick_column idxs c = (case c of
       NumCol vs \<Rightarrow> NumCol (pick idxs vs)
     | ObjCol vs \<Rightarrow> ObjCol (pick idxs vs)
     | DateCol vs \<Rightarrow> DateCol (pick idxs vs)
     | BoolCol vs \<Rightarrow> BoolCol (pick idxs vs))"

definition rows_at_positions :: "table \<Rightarrow> nat list \<Rightarrow> table" where
  "rows_at_positions df idxs =
     \<lparr>nrows = length idxs, cols = map (\<lambda>(n, c). (n, pick_column idxs c)) (cols df)\<rparr>"

text \<open>Row \<open>i\<close> is flagged when some checked column's mask is true at \<open>i\<close>.\<close>

definition flagged :: "(string \<times> bool list) list \<Rightarrow> nat \<Rightarrow> bool" where
  "flagged outliers i = list_ex (\<lambda>(col, m). i < length m \<and> m ! i) outliers"

section \<open>KPI analyzer\<close>

text \<open>A KPI dictionary, in insertion order; \<open>kpis[name] = v\<close> is \<open>AList.update\<close>.\<close>

type_synonym kpis = "(string \<times> fl) list"

text \<open>\<open>KPIAnalyzer.__init__\<close>: \<open>config.get('kpi_thresholds', {})\<close>.\<close>

definition thresholds :: "config \<Rightarrow> (string \<rightharpoonup> (string \<rightharpoonup> real))" where
  "thresholds cfg = (case kpi_thresholds_cfg cfg of None \<Rightarrow> Map.empty | Some t \<Rightarrow> t)"

text \<open>
  The reductions of pandas (\<open>Series.sum\<close>, \<open>mean\<close>, \<open>median\<close>, \<open>std\<close>) and the division
  of two numbers are library arithmetic: an integer sum wraps around at 64 bits, a float
  sum and a quotient are rounded. They are parameters of the model. \<open>r_sum ops df name\<close>
  is the value of \<open>df[name].sum()\<close>, or the error it raises; a value is a number, a string
  (the sum of an object column) or another object (the mean of a datetime column).
  \<open>r_div ops a b\<close> is the quotient of two numbers as the machine computes it, where the
  denominator is not zero.
\<close>

datatype pyval = Num fl | Text string | Obj

record reductions =
  r_sum :: "table \<Rightarrow> string \<Rightarrow> error + pyval"
  r_mean :: "table \<Rightarrow> string \<Rightarrow> error + pyval"
  r_median :: "table \<Rightarrow> string \<Rightarrow> error + pyval"
  r_std :: "table \<Rightarrow> string \<Rightarrow> error + pyval"
  r_div :: "fl \<Rightarrow> fl \<Rightarrow> fl"

type_synonym kpi_values = "(string \<times> pyval) list"

text \<open>\<open>x > 0\<close>: a comparison of a number; a string or another object against 0 is a
  TypeError. A comparison with NaN is false.\<close>

definition py_gt_zero :: "pyval \<Rightarrow> error + bool" where
  "py_gt_zero x = (case x of Num a \<Rightarrow> Inr (fgt a (Fin 0)) | _ \<Rightarrow> Inl TypeError)"

text \<open>\<open>a / b\<close>: Python's division raises on a zero denominator (numpy's warns and gives an
  infinity or NaN; the model takes the stricter reading); on a string or another object
  it is a TypeError.\<close>

definition py_div :: "reductions \<Rightarrow> pyval \<Rightarrow> pyval \<Rightarrow> error + pyval" where
  "py_div ops a b = (case (a, b) of
       (Num x, Num y) \<Rightarrow> (if y = Fin 0 then Inl ZeroDivisionError else Inr (Num (r_div ops x y)))
     | _ \<Rightarrow> Inl TypeError)"

text \<open>Average handle time: mean, median and standard deviation of \<open>handle_time\<close>.\<close>

definition aht_kpis :: "reductions \<Rightarrow> table \<Rightarrow> kpi_values \<Rightarrow> error + kpi_values" where
  "aht_kpis ops df kpis =
     (if has_column df ''handle_time''
      then bind_err (r_mean ops df ''handle_time'') (\<lambda>m.
           bind_err (r_median ops df ''handle_time'') (\<lambda>md.
           bind_err (r_std ops df ''handle_time'') (\<lambda>s.
             Inr (AList.update ''aht_std'' s
                 (AList.update ''aht_median'' md
                 (AList.update ''aht'' m kpis))))))
      else Inr kpis)"

definition fcr_kpis :: "reductions \<Rightarrow> table \<Rightarrow> kpi_values \<Rightarrow> error + kpi_values" where
  "fcr_kpis ops df kpis =
     (if has_column df ''first_call_resolution''
      then bind_err (r_mean ops df ''first_call_resolution'') (\<lambda>m.
             Inr (AList.update ''fcr_rate'' m kpis))
      else Inr kpis)"

text \<open>
  \<open>numerator.sum() / denominator.sum() if denominator.sum() > 0 else 0\<close>, the form of the
  service level and of the adherence: the condition is evaluated first, the numerator's
  sum and the quotient only when it holds.
\<close>

definition guarded_ratio :: "reductions \<Rightarrow> table \<Rightarrow> string \<Rightarrow> string \<Rightarrow> error + pyval" where
  "guarded_ratio ops df numerator denominator =
     bind_err (r_sum ops df denominator) (\<lambda>d.
     bind_err (py_gt_zero d) (\<lambda>positive.
       if positive
       then bind_err (r_sum ops df numerator) (\<lambda>n. py_div ops n d)
       else Inr (Num (Fin 0))))"

definition service_level_kpis :: "reductions \<Rightarrow> table \<Rightarrow> kpi_values \<Rightarrow> error + kpi_values" where
  "service_level_kpis ops df kpis =
     (if has_column df ''calls_offered'' \<and> has_column df ''calls_answered''
      then bind_err (guarded_ratio ops df ''calls_answered'' ''calls_offered'') (\<lambda>v.
             Inr (AList.update ''service_level'' v kpis))
      else Inr kpis)"

text \<open>Occupancy: both totals are computed first, then
  \<open>total_productive / total_logged if total_logged > 0 else 0\<close>.\<close>

definition occupancy_kpis :: "reductions \<Rightarrow> table \<Rightarrow> kpi_values \<Rightarrow> error + kpi_values" where
  "occupancy_kpis ops df kpis =
     (if has_column df ''logged_time'' \<and> has_column df ''productive_time''
      then bind_err (r_sum ops df ''logged_time'') (\<lambda>total_logged.
           bind_err (r_sum ops df ''productive_time'') (\<lambda>total_productive.
           bind_err (py_gt_zero total_logged) (\<lambda>positive.
           bind_err (if positive then py_div ops total_productive total_logged
                     else Inr (Num (Fin 0))) (\<lambda>v.
             Inr (AList.update ''occupancy_rate'' v kpis)))))
      else Inr kpis)"

definition adherence_kpis :: "reductions \<Rightarrow> table \<Rightarrow> kpi_values \<Rightarrow> error + kpi_values" where
  "adherence_kpis ops df kpis =
     (if has_column df ''scheduled_time'' \<and> has_column df ''actual_time''
      then bind_err (guarded_ratio ops df ''actual_time'' ''scheduled_time'') (\<lambda>v.
             Inr (AList.update ''adherence'' v kpis))
      else Inr kpis)"

text \<open>\<open>calculate_performance_kpis\<close>: the five groups in the order of the source, each
  one only when its columns are present.\<close>

definition calculate_performance_kpis :: "reductions \<Rightarrow> table \<Rightarrow> error + kpi_values" where
  "calculate_performance_kpis ops df =
     bind_err (aht_kpis ops df []) (\<lambda>k1.
     bind_err (fcr_kpis ops df k1) (\<lambda>k2.
     bind_err (service_level_kpis ops df k2) (\<lambda>k3.
     bind_err (occupancy_kpis ops df k3) (\<lambda>k4.
     adherence_kpis ops df k4))))"

text \<open>The columns \<open>calculate_performance_kpis\<close> reads.\<close>

definition performance_columns :: "string list" where
  "performance_columns = [''handle_time'', ''first_call_resolution'', ''calls_offered'',
     ''calls_answered'', ''logged_time'', ''productive_time'', ''scheduled_time'',
     ''actual_time'']"

text \<open>What is assumed of the library: a reduction does not itself raise a division error;
  and, for the call to return, a reduction of a performance column yields a number.\<close>

definition is_zero_division :: "error + 'a \<Rightarrow> bool" where
  "is_zero_division r = (case r of Inl ZeroDivisionError \<Rightarrow> True | _ \<Rightarrow> False)"

definition is_number :: "error + pyval \<Rightarrow> bool" where
  "is_number r = (case r of Inr (Num a) \<Rightarrow> True | _ \<Rightarrow> False)"

definition reductions_divide_safely :: "reductions \<Rightarrow> table \<Rightarrow> bool" where
  "reductions_divide_safely ops df =
     list_all (\<lambda>name. \<not> is_zero_division (r_sum ops df name)
                     \<and> \<not> is_zero_division (r_mean ops df name)
                     \<and> \<not> is_zero_division (r_median ops df name)
                     \<and> \<not> is_zero_division (r_std ops df name)) performance_columns"

definition reductions_numeric :: "reductions \<Rightarrow> table \<Rightarrow> bool" where
  "reductions_numeric ops df =
     list_all (\<lambda>name. is_number (r_sum ops df name) \<and> is_number (r_mean ops df name)
                     \<and> is_number (r_median ops df name) \<and> is_number (r_std ops df name))
       (filter (has_column df) performance_columns)"

text \<open>
  The reductions in exact arithmetic, for evaluation at a table whose sums and quotients
  the machine computes without rounding or wrap-around (a few small integers, a dyadic
  quotient). On other tables the machine's results differ from these.
\<close>

definition exact_reduction :: "(real option list \<Rightarrow> real option) \<Rightarrow> table \<Rightarrow> string
    \<Rightarrow> error + pyval" where
  "exact_reduction f df name = bind_err (numeric_series df name) (\<lambda>vs. Inr (Num (of_opt (f vs))))"

definition exact_reductions :: reductions where
  "exact_reductions =
     \<lparr>r_sum = exact_reduction (\<lambda>vs. Some (sum_list (dropna vs))),
      r_mean = exact_reduction series_mean,
      r_median = exact_reduction series_median,
      r_std = exact_reduction series_std,
      r_div = fdiv\<rparr>"

subsection \<open>Comparison with the targets\<close>

text \<open>Python's \<open>str.replace(old, new)\<close>: every occurrence, left to right, without overlap.\<close>

function str_replace :: "string \<Rightarrow> string \<Rightarrow> string \<Rightarrow> string" where
  "str_replace old new s =
     (if old = [] then new @ concat (map (\<lambda>c. c # new) s)
      else if s = [] then []
      else if take (length old) s = old then new @ str_replace old new (drop (length old) s)
      else hd s # str_replace old new (tl s))"
  by pat_completeness auto
termination
  by (relation "measure (\<lambda>(old, new, s). length s)") auto

declare str_replace.simps [simp del]

text \<open>\<open>kpi_name.replace('_avg', '').replace('_rate', '')\<close>.\<close>

definition target_key :: "string \<Rightarrow> string" where
  "target_key kpi_name = str_replace ''_rate'' [] (str_replace ''_avg'' [] kpi_name)"

record comparison =
  actual :: fl
  target :: real
  delta :: fl
  pct_delta :: fl
  meets_target :: bool

definition compare_one :: "fl \<Rightarrow> real \<Rightarrow> comparison" where
  "compare_one v t =
     (let d = fsub v (Fin t);
          pct = (if t \<noteq> 0 then fmul (fdiv d (Fin t)) (Fin 100) else Fin 0)
      in \<lparr>actual = v, target = t, delta = d, pct_delta = pct, meets_target = fge v (Fin t)\<rparr>)"

text \<open>\<open>compare_to_targets\<close>: the loop over \<open>kpis.items()\<close>, the comparisons accumulated.\<close>

fun compare_loop :: "(string \<rightharpoonup> real) \<Rightarrow> kpis \<Rightarrow> (string \<times> comparison) list
    \<Rightarrow> (string \<times> comparison) list" where
  "compare_loop targets [] comparisons = comparisons"
| "compare_loop targets ((kpi_name, v) # rest) comparisons =
     (case targets (target_key kpi_name) of
        Some t \<Rightarrow> compare_loop targets rest (AList.update kpi_name (compare_one v t) comparisons)
      | None \<Rightarrow> compare_loop targets rest comparisons)"

definition compare_to_targets :: "config \<Rightarrow> kpis \<Rightarrow> string \<Rightarrow> (string \<times> comparison) list" where
  "compare_to_targets cfg kpis kpi_type =
     (let targets = (case thresholds cfg kpi_type of None \<Rightarrow> Map.empty | Some t \<Rightarrow> t)
      in compare_loop targets kpis [])"

subsection \<open>Trends\<close>

text \<open>
  \<open>analyze_trends\<close> checks that both columns are present and then hands the table to
  pandas' resampling and rolling mean. That second part is a parameter \<open>resample\<close> here:
  it is library code, and it can fail on its own (a date that does not parse).
\<close>

definition analyze_trends ::
    "(table \<Rightarrow> string \<Rightarrow> string \<Rightarrow> string \<Rightarrow> error + 'r) \<Rightarrow> table \<Rightarrow> string \<Rightarrow> string \<Rightarrow> string
     \<Rightarrow> error + 'r" where
  "analyze_trends resample df date_column metric_column period =
     (if \<not> has_column df date_column \<or> \<not> has_column df metric_column
      then Inl (ValueError (''Columns '' @ date_column @ '' or '' @ metric_column @ '' not found''))
      else resample df date_column metric_column period)"

section \<open>Correlation analyzer\<close>

text \<open>
  \<open>calculate_correlation_matrix\<close> is \<open>df[numeric_cols].corr(method=method)\<close>. The matrix
  is square over the numeric columns. pandas computes each coefficient once, from the
  rows where both columns have a value (\<open>min_periods = 1\<close>), and stores it at both
  positions of the pair. The coefficient is the documented one: Pearson's product-moment
  coefficient, the same on average ranks for Spearman, Kendall's tau-b; it is NaN where
  the divisor is zero. With \<open>kendall\<close> the diagonal is not computed but set to 1.0
  wherever the column has a value.
\<close>

record corr_matrix =
  labels :: "string list"
  entries :: "fl list list"

definition numeric_data :: "table \<Rightarrow> (string \<times> real option list) list" where
  "numeric_data df =
     List.map_filter (\<lambda>(n, c). case c of NumCol vs \<Rightarrow> Some (n, vs) | _ \<Rightarrow> None) (cols df)"

text \<open>The pairs of values of the rows where both columns have one.\<close>

fun paired :: "real option list \<Rightarrow> real option list \<Rightarrow> (real \<times> real) list" where
  "paired (Some x # xs) (Some y # ys) = (x, y) # paired xs ys"
| "paired (_ # xs) (_ # ys) = paired xs ys"
| "paired _ _ = []"

definition covariation :: "real list \<Rightarrow> real list \<Rightarrow> real" where
  "covariation xs ys = sum_list (map (\<lambda>(x, y). (x - mean_of xs) * (y - mean_of ys)) (zip xs ys))"

definition pearson_coef :: "(real \<times> real) list \<Rightarrow> fl" where
  "pearson_coef ps =
     (let xs = map fst ps; ys = map snd ps in
      if length ps < 1 then NaN
      else let divisor = sqrt (ssq_dev xs * ssq_dev ys) in
           if divisor \<noteq> 0 then Fin (covariation xs ys / divisor) else NaN)"

text \<open>Average ranks: the values below, plus the middle position among the equal ones.\<close>

definition ranks :: "real list \<Rightarrow> real list" where
  "ranks xs = map (\<lambda>x. real (length (filter (\<lambda>y. y < x) xs))
                        + (real (length (filter (\<lambda>y. y = x) xs)) + 1) / 2) xs"

definition spearman_coef :: "(real \<times> real) list \<Rightarrow> fl" where
  "spearman_coef ps = pearson_coef (zip (ranks (map fst ps)) (ranks (map snd ps)))"

text \<open>Kendall's tau-b over the pairs of observations \<open>k < l\<close>.\<close>

definition obs_pairs :: "(real \<times> real) list \<Rightarrow> ((real \<times> real) \<times> (real \<times> real)) list" where
  "obs_pairs ps = concat (map (\<lambda>k. map (\<lambda>l. (ps ! k, ps ! l)) [Suc k..<length ps]) [0..<length ps])"

definition kendall_coef :: "(real \<times> real) list \<Rightarrow> fl" where
  "kendall_coef ps =
     (let qs = obs_pairs ps;
          tot = real (length qs);
          xtie = real (length (filter (\<lambda>((x1, y1), (x2, y2)). x1 = x2) qs));
          ytie = real (length (filter (\<lambda>((x1, y1), (x2, y2)). y1 = y2) qs));
          con = real (length (filter (\<lambda>((x1, y1), (x2, y2)). 0 < (x1 - x2) * (y1 - y2)) qs));
          dis = real (length (filter (\<lambda>((x1, y1), (x2, y2)). (x1 - x2) * (y1 - y2) < 0) qs))
      in if ps = [] \<or> xtie = tot \<or> ytie = tot then NaN
         else Fin ((con - dis) / (sqrt (tot - xtie) * sqrt (tot - ytie))))"

datatype corr_method = Pearson | Spearman | Kendall

text \<open>The coefficient pandas stores at \<open>[i, j]\<close> and \<open>[j, i]\<close>, computed once for the pair.\<close>

definition pair_coef :: "corr_method \<Rightarrow> real option list list \<Rightarrow> nat \<Rightarrow> nat \<Rightarrow> fl" where
  "pair_coef m data i j =
     (let hi = max i j; lo = min i j; ps = paired (data ! hi) (data ! lo) in
      case m of
        Pearson \<Rightarrow> pearson_coef ps
      | Spearman \<Rightarrow> spearman_coef ps
      | Kendall \<Rightarrow> (if length ps < 1 then NaN else if lo = hi then Fin 1
                    else kendall_coef (paired (data ! lo) (data ! hi))))"

definition corr :: "corr_method \<Rightarrow> (string \<times> real option list) list \<Rightarrow> corr_matrix" where
  "corr m nd =
     (let k = length nd; data = map snd nd in
      \<lparr>labels = map fst nd,
       entries = map (\<lambda>i. map (\<lambda>j. pair_coef m data i j) [0..<k]) [0..<k]\<rparr>)"

definition calculate_correlation_matrix :: "table \<Rightarrow> string \<Rightarrow> error + corr_matrix" where
  "calculate_correlation_matrix df method =
     (let nd = numeric_data df in
      if method = ''pearson'' then Inr (corr Pearson nd)
      else if method = ''spearman'' then Inr (corr Spearman nd)
      else if method = ''kendall'' then Inr (corr Kendall nd)
      else Inl (ValueError (''method must be either 'pearson', 'spearman', 'kendall', or a callable, ''
                            @ [CHR 0x27] @ method @ [CHR 0x27] @ '' was supplied'')))"

subsection \<open>Strong correlations\<close>

text \<open>\<open>CorrelationAnalyzer.__init__\<close>:
  \<open>config.get('analysis', {}).get('correlation_threshold', 0.3)\<close>.\<close>

definition correlation_threshold :: "config \<Rightarrow> real" where
  "correlation_threshold cfg = (case correlation_threshold_cfg cfg of None \<Rightarrow> 3 / 10 | Some t \<Rightarrow> t)"

text \<open>\<open>corr_matrix.iloc[i, j]\<close>: an IndexError outside the frame.\<close>

definition iloc :: "corr_matrix \<Rightarrow> nat \<Rightarrow> nat \<Rightarrow> error + fl" where
  "iloc M i j = (if i < length (entries M) \<and> j < length (entries M ! i)
                 then Inr (entries M ! i ! j) else Inl IndexError)"

type_synonym corr_pair = "string \<times> string \<times> fl"

definition coef :: "corr_pair \<Rightarrow> fl" where
  "coef p = snd (snd p)"

text \<open>The positions the two loops visit: \<open>i\<close> over all columns, \<open>j\<close> over the later ones.\<close>

definition upper_positions :: "nat \<Rightarrow> (nat \<times> nat) list" where
  "upper_positions k = concat (map (\<lambda>i. map (\<lambda>j. (i, j)) [Suc i..<k]) [0..<k])"

fun collect_strong :: "corr_matrix \<Rightarrow> real \<Rightarrow> (nat \<times> nat) list \<Rightarrow> corr_pair list
    \<Rightarrow> error + corr_pair list" where
  "collect_strong M threshold [] strong = Inr strong"
| "collect_strong M threshold ((i, j) # rest) strong =
     bind_err (iloc M i j) (\<lambda>corr_value.
       collect_strong M threshold rest
         (if fge (fabs corr_value) (Fin threshold)
          then strong @ [(labels M ! i, labels M ! j, corr_value)]
          else strong))"

text \<open>\<open>sort(key=lambda x: abs(x[2]), reverse=True)\<close>: a stable sort, the larger magnitude
  first; pairs of equal magnitude keep their order.\<close>

fun insert_desc :: "corr_pair \<Rightarrow> corr_pair list \<Rightarrow> corr_pair list" where
  "insert_desc p [] = [p]"
| "insert_desc p (q # qs) =
     (if fgt (fabs (coef q)) (fabs (coef p)) then q # insert_desc p qs else p # q # qs)"

definition sort_desc :: "corr_pair list \<Rightarrow> corr_pair list" where
  "sort_desc ps = foldr insert_desc ps []"

definition find_strong_correlations :: "config \<Rightarrow> corr_matrix \<Rightarrow> real option
    \<Rightarrow> error + corr_pair list" where
  "find_strong_correlations cfg M threshold =
     (let threshold' = (case threshold of None \<Rightarrow> correlation_threshold cfg | Some t \<Rightarrow> t)
      in bind_err (collect_strong M threshold' (upper_positions (length (labels M))) [])
           (\<lambda>strong. Inr (sort_desc strong)))"

text \<open>The pairs at the given positions whose absolute coefficient reaches the threshold.\<close>

definition strong_at :: "corr_matrix \<Rightarrow> real \<Rightarrow> (nat \<times> nat) list \<Rightarrow> corr_pair list" where
  "strong_at M t pos =
     map (\<lambda>(i, j). (labels M ! i, labels M ! j, entries M ! i ! j))
       (filter (\<lambda>(i, j). fge (fabs (entries M ! i ! j)) (Fin t)) pos)"

text \<open>A square matrix: as many rows as columns, every row as long as the labels.\<close>

definition square :: "corr_matrix \<Rightarrow> bool" where
  "square M = (length (entries M) = length (labels M) \<and>
               list_all (\<lambda>row. length row = length (labels M)) (entries M))"

section \<open>Statistical analyzer\<close>

text \<open>\<open>scipy.stats.zscore\<close> of an array: the deviation from the mean over the population
  standard deviation (\<open>ddof = 0\<close>), an array as long as its argument.\<close>

definition zscore :: "real list \<Rightarrow> fl list" where
  "zscore xs =
     (let m = (if xs = [] then NaN else Fin (mean_of xs));
          s = (if xs = [] then NaN else Fin (sqrt (ssq_dev xs / real (length xs))))
      in map (\<lambda>x. fdiv (fsub (Fin x) m) s) xs)"

text \<open>\<open>Series.quantile(q)\<close>: linear interpolation between the sorted non-missing values.\<close>

definition quantile :: "real \<Rightarrow> real option list \<Rightarrow> fl" where
  "quantile q vs =
     (let xs = sort (dropna vs); n = length xs in
      if n = 0 then NaN
      else let pos = q * real (n - 1); lo = nat \<lfloor>pos\<rfloor>; frac = pos - real lo in
           if Suc lo < n then Fin (xs ! lo + frac * (xs ! Suc lo - xs ! lo)) else Fin (xs ! lo))"

text \<open>\<open>df_copy[name] = values\<close>: the values must be as many as the rows.\<close>

definition set_column :: "table \<Rightarrow> string \<Rightarrow> column \<Rightarrow> error + table" where
  "set_column df name c =
     (if column_length c \<noteq> nrows df
      then Inl (ValueError (''Length of values ('' @ string_of_nat (column_length c)
                  @ '') does not match length of index ('' @ string_of_nat (nrows df) @ '')''))
      else Inr (df\<lparr>cols := AList.update name c (cols df)\<rparr>))"

text \<open>
  \<open>detect_anomalies\<close>. With \<open>zscore\<close> the scores are those of \<open>df_copy[column].dropna()\<close>,
  an array that has lost the index. With \<open>iqr\<close> the flags are a series over all rows.
  Any other method assigns nothing, and the count that follows reads \<open>is_anomaly\<close>.
\<close>

definition detect_anomalies :: "table \<Rightarrow> string \<Rightarrow> string \<Rightarrow> real \<Rightarrow> error + table" where
  "detect_anomalies df column method threshold =
     (if method = ''zscore''
      then bind_err (numeric_series df column) (\<lambda>vs.
             let z_scores = map fabs (zscore (dropna vs)) in
             set_column df ''is_anomaly'' (BoolCol (map (\<lambda>z. fgt z (Fin threshold)) z_scores)))
      else if method = ''iqr''
      then bind_err (numeric_series df column) (\<lambda>vs.
             let Q1 = quantile (1 / 4) vs; Q3 = quantile (3 / 4) vs;
                 IQR = fsub Q3 Q1;
                 lower_bound = fsub Q1 (fmul (Fin threshold) IQR);
                 upper_bound = fadd Q3 (fmul (Fin threshold) IQR)
             in set_column df ''is_anomaly''
                  (BoolCol (map (\<lambda>v. fgt lower_bound (of_opt v) \<or> fgt (of_opt v) upper_bound) vs)))
      else bind_err (numeric_series df ''is_anomaly'') (\<lambda>flags. Inr df))"

section \<open>Properties\<close>

subsection \<open>Sufficiency\<close>

text \<open>
  C9. For a table with fewer rows than the configured minimum, \<open>validate_sufficient_data\<close>
  returns false with the message "Insufficient data: n rows (minimum: m)"; for a table
  with at least that many rows it returns true; and with a minimum of 30 and a table of
  10 rows the message is exactly "Insufficient data: 10 rows (minimum: 30)".
\<close>

theorem validate_sufficient_data_gate:
  "(int (nrows df) < min_data_points cfg \<longrightarrow>
      validate_sufficient_data cfg df =
        (False, ''Insufficient data: '' @ string_of_nat (nrows df) @ '' rows (minimum: ''
                  @ string_of_int (min_data_points cfg) @ '')''))
   \<and> (min_data_points cfg \<le> int (nrows df) \<longrightarrow> fst (validate_sufficient_data cfg df))
   \<and> (min_data_points_cfg cfg = Some 30 \<and> nrows df = 10 \<longrightarrow>
      validate_sufficient_data cfg df = (False, ''Insufficient data: 10 rows (minimum: 30)''))"
proof -
  have ten: "string_of_nat 10 = ''10''" by code_simp
  have thirty: "string_of_int 30 = ''30''" by code_simp
  show ?thesis
    by (auto simp: validate_sufficient_data_def min_data_points_def Let_def ten thirty)
qed

theorem validate_sufficient_data_gate_witness:
  "validate_sufficient_data
     \<lparr>outlier_std_cfg = None, min_data_points_cfg = Some 30,
      correlation_threshold_cfg = None, kpi_thresholds_cfg = None\<rparr>
     \<lparr>nrows = 10, cols = []\<rparr>
   = (False, ''Insufficient data: 10 rows (minimum: 30)'')
   \<and> fst (validate_sufficient_data
     \<lparr>outlier_std_cfg = None, min_data_points_cfg = None,
      correlation_threshold_cfg = None, kpi_thresholds_cfg = None\<rparr>
     \<lparr>nrows = 30, cols = []\<rparr>)"
proof -
  have ten: "string_of_nat 10 = ''10''" by code_simp
  have thirty: "string_of_int 30 = ''30''" by code_simp
  show ?thesis
  using validate_sufficient_data_gate
    [of "\<lparr>nrows = 10, cols = []\<rparr>"
        "\<lparr>outlier_std_cfg = None, min_data_points_cfg = Some 30,
          correlation_threshold_cfg = None, kpi_thresholds_cfg = None\<rparr>"]
    validate_sufficient_data_gate
    [of "\<lparr>nrows = 30, cols = []\<rparr>"
        "\<lparr>outlier_std_cfg = None, min_data_points_cfg = None,
          correlation_threshold_cfg = None, kpi_thresholds_cfg = None\<rparr>"]
  by (simp add: min_data_points_def ten thirty)
qed

subsection \<open>Performance KPIs\<close>

lemma py_gt_zero_Inr:
  "py_gt_zero d = Inr b \<Longrightarrow> \<exists>a. d = Num a \<and> b = fgt a (Fin 0)"
  by (cases d) (simp_all add: py_gt_zero_def)

lemma fgt_zero_nonzero: "fgt a (Fin 0) \<Longrightarrow> a \<noteq> Fin 0"
  by (cases a) auto

lemma guarded_ratio_Inr:
  assumes "guarded_ratio ops df n d = Inr v"
  shows "\<exists>dv. r_sum ops df d = Inr (Num dv) \<and>
           (if fgt dv (Fin 0)
            then \<exists>nv. r_sum ops df n = Inr (Num nv) \<and> v = Num (r_div ops nv dv)
            else v = Num (Fin 0))"
proof -
  from assms obtain x where x: "r_sum ops df d = Inr x"
    by (cases "r_sum ops df d") (simp_all add: guarded_ratio_def bind_err_def)
  with assms obtain b where b: "py_gt_zero x = Inr b"
    by (cases "py_gt_zero x") (simp_all add: guarded_ratio_def bind_err_def)
  from py_gt_zero_Inr [OF b] obtain dv where dv: "x = Num dv" "b = fgt dv (Fin 0)" by blast
  show ?thesis
  proof (cases "fgt dv (Fin 0)")
    case True
    with assms x b dv obtain y where y: "r_sum ops df n = Inr y" and q: "py_div ops y (Num dv) = Inr v"
      by (cases "r_sum ops df n") (simp_all add: guarded_ratio_def bind_err_def)
    from q obtain nv where "y = Num nv" "v = Num (r_div ops nv dv)"
      by (cases y) (auto simp: py_div_def split: if_splits)
    with True x dv y show ?thesis by simp
  next
    case False
    with assms x b dv show ?thesis by (simp add: guarded_ratio_def bind_err_def)
  qed
qed

lemma py_div_no_zero_division:
  "fgt dv (Fin 0) \<Longrightarrow> \<not> is_zero_division (py_div ops y (Num dv))"
  by (cases y) (auto simp: py_div_def is_zero_division_def dest: fgt_zero_nonzero)

lemma bind_err_no_zero_division:
  assumes "\<not> is_zero_division m" and "\<And>x. m = Inr x \<Longrightarrow> \<not> is_zero_division (f x)"
  shows "\<not> is_zero_division (bind_err m f)"
  using assms by (cases m) (auto simp: bind_err_def is_zero_division_def)

lemma guarded_ratio_no_zero_division:
  assumes "\<not> is_zero_division (r_sum ops df n)" and "\<not> is_zero_division (r_sum ops df d)"
  shows "\<not> is_zero_division (guarded_ratio ops df n d)"
  unfolding guarded_ratio_def
proof (rule bind_err_no_zero_division [OF assms(2)])
  fix x assume "r_sum ops df d = Inr x"
  show "\<not> is_zero_division (bind_err (py_gt_zero x) (\<lambda>positive.
          if positive then bind_err (r_sum ops df n) (\<lambda>n. py_div ops n x) else Inr (Num (Fin 0))))"
  proof (rule bind_err_no_zero_division)
    show "\<not> is_zero_division (py_gt_zero x)"
      by (cases x) (simp_all add: py_gt_zero_def is_zero_division_def)
  next
    fix b assume b: "py_gt_zero x = Inr b"
    from py_gt_zero_Inr [OF b] obtain dv where dv: "x = Num dv" "b = fgt dv (Fin 0)" by blast
    show "\<not> is_zero_division
        (if b then bind_err (r_sum ops df n) (\<lambda>n. py_div ops n x) else Inr (Num (Fin 0)))"
    proof (cases b)
      case True
      with dv have "fgt dv (Fin 0)" by simp
      then have "\<not> is_zero_division (bind_err (r_sum ops df n) (\<lambda>n. py_div ops n x))"
        unfolding dv(1)
        by (intro bind_err_no_zero_division [OF assms(1)] py_div_no_zero_division)
      with True show ?thesis by simp
    next
      case False
      then show ?thesis by (simp add: is_zero_division_def)
    qed
  qed
qed

lemma is_number_Inr: "is_number r \<Longrightarrow> \<exists>a. r = Inr (Num a)"
  by (cases r) (auto simp: is_number_def split: pyval.splits)

lemma guarded_ratio_returns:
  assumes "is_number (r_sum ops df n)" and "is_number (r_sum ops df d)"
  shows "\<exists>v. guarded_ratio ops df n d = Inr v"
proof -
  from is_number_Inr [OF assms(1)] obtain nv where nv: "r_sum ops df n = Inr (Num nv)" by blast
  from is_number_Inr [OF assms(2)] obtain dv where dv: "r_sum ops df d = Inr (Num dv)" by blast
  show ?thesis
    using fgt_zero_nonzero [of dv]
    by (auto simp: guarded_ratio_def bind_err_def nv dv py_gt_zero_def py_div_def)
qed

lemma performance_members:
  "''handle_time'' \<in> set performance_columns"
  "''first_call_resolution'' \<in> set performance_columns"
  "''calls_offered'' \<in> set performance_columns"
  "''calls_answered'' \<in> set performance_columns"
  "''logged_time'' \<in> set performance_columns"
  "''productive_time'' \<in> set performance_columns"
  "''scheduled_time'' \<in> set performance_columns"
  "''actual_time'' \<in> set performance_columns"
  by (simp_all add: performance_columns_def)

lemma divide_safelyD:
  assumes "reductions_divide_safely ops df" and "name \<in> set performance_columns"
  shows "\<not> is_zero_division (r_sum ops df name)" "\<not> is_zero_division (r_mean ops df name)"
    "\<not> is_zero_division (r_median ops df name)" "\<not> is_zero_division (r_std ops df name)"
  using assms by (auto simp: reductions_divide_safely_def list_all_iff)

lemma numericD:
  assumes "reductions_numeric ops df" and "name \<in> set performance_columns"
    and "has_column df name"
  shows "is_number (r_sum ops df name)" "is_number (r_mean ops df name)"
    "is_number (r_median ops df name)" "is_number (r_std ops df name)"
  using assms by (auto simp: reductions_numeric_def list_all_iff)

lemma Inr_no_zero_division: "\<not> is_zero_division (Inr x)"
  by (simp add: is_zero_division_def)

lemma aht_kpis_keeps:
  "aht_kpis ops df k = Inr k' \<Longrightarrow> map_of k' ''service_level'' = map_of k ''service_level''"
  by (auto simp: aht_kpis_def bind_err_def update_conv split: if_splits sum.splits)

lemma fcr_kpis_keeps:
  "fcr_kpis ops df k = Inr k' \<Longrightarrow> map_of k' ''service_level'' = map_of k ''service_level''"
  by (auto simp: fcr_kpis_def bind_err_def update_conv split: if_splits sum.splits)

lemma occupancy_kpis_keeps:
  "occupancy_kpis ops df k = Inr k' \<Longrightarrow> map_of k' ''service_level'' = map_of k ''service_level''"
  by (auto simp: occupancy_kpis_def bind_err_def update_conv split: if_splits sum.splits)

lemma adherence_kpis_keeps:
  "adherence_kpis ops df k = Inr k' \<Longrightarrow> map_of k' ''service_level'' = map_of k ''service_level''"
  by (auto simp: adherence_kpis_def bind_err_def update_conv split: if_splits sum.splits)

lemma service_level_kpis_value:
  assumes "service_level_kpis ops df k = Inr k'"
    and "has_column df ''calls_offered''" and "has_column df ''calls_answered''"
  shows "\<exists>v. guarded_ratio ops df ''calls_answered'' ''calls_offered'' = Inr v
           \<and> map_of k' ''service_level'' = Some v"
  using assms
  by (auto simp: service_level_kpis_def bind_err_def update_conv split: sum.splits)

lemma is_zero_division_bind:
  "is_zero_division (bind_err m f) \<longleftrightarrow>
     is_zero_division m \<or> (\<exists>x. m = Inr x \<and> is_zero_division (f x))"
  by (cases m) (auto simp: bind_err_def is_zero_division_def)

lemma aht_kpis_safe:
  assumes "reductions_divide_safely ops df"
  shows "\<not> is_zero_division (aht_kpis ops df k)"
  using divide_safelyD [OF assms performance_members(1)]
  by (auto simp: aht_kpis_def is_zero_division_bind Inr_no_zero_division)

lemma fcr_kpis_safe:
  assumes "reductions_divide_safely ops df"
  shows "\<not> is_zero_division (fcr_kpis ops df k)"
  using divide_safelyD [OF assms performance_members(2)]
  by (auto simp: fcr_kpis_def is_zero_division_bind Inr_no_zero_division)

lemma service_level_kpis_safe:
  assumes "reductions_divide_safely ops df"
  shows "\<not> is_zero_division (service_level_kpis ops df k)"
  using guarded_ratio_no_zero_division [OF divide_safelyD(1) [OF assms performance_members(4)]
      divide_safelyD(1) [OF assms performance_members(3)]]
  by (auto simp: service_level_kpis_def is_zero_division_bind Inr_no_zero_division)

lemma adherence_kpis_safe:
  assumes "reductions_divide_safely ops df"
  shows "\<not> is_zero_division (adherence_kpis ops df k)"
  using guarded_ratio_no_zero_division [OF divide_safelyD(1) [OF assms performance_members(8)]
      divide_safelyD(1) [OF assms performance_members(7)]]
  by (auto simp: adherence_kpis_def is_zero_division_bind Inr_no_zero_division)

lemma occupancy_kpis_safe:
  assumes "reductions_divide_safely ops df"
  shows "\<not> is_zero_division (occupancy_kpis ops df k)"
proof -
  have gt: "\<not> is_zero_division (py_gt_zero tl)" for tl
    by (cases tl) (simp_all add: py_gt_zero_def is_zero_division_def)
  have dv: "\<not> is_zero_division (py_div ops tp tl)" if "py_gt_zero tl = Inr True" for tl tp
    using py_gt_zero_Inr [OF that] py_div_no_zero_division by auto
  show ?thesis
    using divide_safelyD(1) [OF assms performance_members(5)]
      divide_safelyD(1) [OF assms performance_members(6)] gt dv
    by (auto simp: occupancy_kpis_def is_zero_division_bind Inr_no_zero_division)
qed

lemma aht_kpis_returns:
  assumes "reductions_numeric ops df"
  shows "\<exists>k'. aht_kpis ops df k = Inr k'"
proof (cases "has_column df ''handle_time''")
  case True
  from numericD [OF assms performance_members(1) True]
  obtain a b c where "r_mean ops df ''handle_time'' = Inr (Num a)"
    "r_median ops df ''handle_time'' = Inr (Num b)" "r_std ops df ''handle_time'' = Inr (Num c)"
    by (blast dest: is_number_Inr)
  with True show ?thesis by (simp add: aht_kpis_def bind_err_def)
next
  case False
  then show ?thesis by (simp add: aht_kpis_def)
qed

lemma fcr_kpis_returns:
  assumes "reductions_numeric ops df"
  shows "\<exists>k'. fcr_kpis ops df k = Inr k'"
proof (cases "has_column df ''first_call_resolution''")
  case True
  from numericD [OF assms performance_members(2) True]
  obtain a where "r_mean ops df ''first_call_resolution'' = Inr (Num a)"
    by (blast dest: is_number_Inr)
  with True show ?thesis by (simp add: fcr_kpis_def bind_err_def)
next
  case False
  then show ?thesis by (simp add: fcr_kpis_def)
qed

lemma service_level_kpis_returns:
  assumes "reductions_numeric ops df"
  shows "\<exists>k'. service_level_kpis ops df k = Inr k'"
proof (cases "has_column df ''calls_offered'' \<and> has_column df ''calls_answered''")
  case True
  then have "is_number (r_sum ops df ''calls_answered'')" "is_number (r_sum ops df ''calls_offered'')"
    using numericD(1) [OF assms performance_members(4)] numericD(1) [OF assms performance_members(3)]
    by simp_all
  from guarded_ratio_returns [OF this] obtain v where
    "guarded_ratio ops df ''calls_answered'' ''calls_offered'' = Inr v" by blast
  with True show ?thesis by (simp add: service_level_kpis_def bind_err_def)
next
  case False
  then have "service_level_kpis ops df k = Inr k" unfolding service_level_kpis_def by (rule if_not_P)
  then show ?thesis by simp
qed

lemma adherence_kpis_returns:
  assumes "reductions_numeric ops df"
  shows "\<exists>k'. adherence_kpis ops df k = Inr k'"
proof (cases "has_column df ''scheduled_time'' \<and> has_column df ''actual_time''")
  case True
  then have "is_number (r_sum ops df ''actual_time'')" "is_number (r_sum ops df ''scheduled_time'')"
    using numericD(1) [OF assms performance_members(8)] numericD(1) [OF assms performance_members(7)]
    by simp_all
  from guarded_ratio_returns [OF this] obtain v where
    "guarded_ratio ops df ''actual_time'' ''scheduled_time'' = Inr v" by blast
  with True show ?thesis by (simp add: adherence_kpis_def bind_err_def)
next
  case False
  then have "adherence_kpis ops df k = Inr k" unfolding adherence_kpis_def by (rule if_not_P)
  then show ?thesis by simp
qed

lemma occupancy_kpis_returns:
  assumes "reductions_numeric ops df"
  shows "\<exists>k'. occupancy_kpis ops df k = Inr k'"
proof (cases "has_column df ''logged_time'' \<and> has_column df ''productive_time''")
  case True
  then have "is_number (r_sum ops df ''logged_time'')" "is_number (r_sum ops df ''productive_time'')"
    using numericD(1) [OF assms performance_members(5)] numericD(1) [OF assms performance_members(6)]
    by simp_all
  then obtain a b where "r_sum ops df ''logged_time'' = Inr (Num a)"
    "r_sum ops df ''productive_time'' = Inr (Num b)" by (blast dest: is_number_Inr)
  with True show ?thesis
    using fgt_zero_nonzero [of a]
    by (auto simp: occupancy_kpis_def bind_err_def py_gt_zero_def py_div_def)
next
  case False
  then have "occupancy_kpis ops df k = Inr k" unfolding occupancy_kpis_def by (rule if_not_P)
  then show ?thesis by simp
qed

text \<open>
  C1 (as amended). Whatever the library's reductions return: when \<open>calls_offered\<close> and
  \<open>calls_answered\<close> are both present and \<open>calculate_performance_kpis\<close> returns, its
  \<open>service_level\<close> is the quotient of the sum of the answered calls by the sum of the
  offered calls when that sum is greater than 0, and exactly 0 when the sum is zero or
  negative. The call never raises a division error (the reductions raising none), and it
  returns whenever the reductions of the performance columns present yield numbers.
\<close>

theorem service_level_guarded:
  "(reductions_divide_safely ops df \<longrightarrow> \<not> is_zero_division (calculate_performance_kpis ops df))
   \<and> (reductions_numeric ops df \<longrightarrow> (\<exists>kpis. calculate_performance_kpis ops df = Inr kpis))
   \<and> (calculate_performance_kpis ops df = Inr kpis \<and> has_column df ''calls_offered''
        \<and> has_column df ''calls_answered'' \<longrightarrow>
        (\<exists>offered. r_sum ops df ''calls_offered'' = Inr (Num offered) \<and>
           (if fgt offered (Fin 0)
            then \<exists>answered. r_sum ops df ''calls_answered'' = Inr (Num answered) \<and>
                   map_of kpis ''service_level'' = Some (Num (r_div ops answered offered))
            else map_of kpis ''service_level'' = Some (Num (Fin 0)))))"
proof (intro conjI impI)
  assume safe: "reductions_divide_safely ops df"
  show "\<not> is_zero_division (calculate_performance_kpis ops df)"
    unfolding calculate_performance_kpis_def
    by (simp add: is_zero_division_bind aht_kpis_safe [OF safe] fcr_kpis_safe [OF safe]
        service_level_kpis_safe [OF safe] occupancy_kpis_safe [OF safe]
        adherence_kpis_safe [OF safe])
next
  assume num: "reductions_numeric ops df"
  obtain k1 where k1: "aht_kpis ops df [] = Inr k1" using aht_kpis_returns [OF num] by blast
  obtain k2 where k2: "fcr_kpis ops df k1 = Inr k2" using fcr_kpis_returns [OF num] by blast
  obtain k3 where k3: "service_level_kpis ops df k2 = Inr k3"
    using service_level_kpis_returns [OF num] by blast
  obtain k4 where k4: "occupancy_kpis ops df k3 = Inr k4"
    using occupancy_kpis_returns [OF num] by blast
  obtain k5 where k5: "adherence_kpis ops df k4 = Inr k5"
    using adherence_kpis_returns [OF num] by blast
  show "\<exists>kpis. calculate_performance_kpis ops df = Inr kpis"
    by (simp add: calculate_performance_kpis_def bind_err_def k1 k2 k3 k4 k5)
next
  assume a: "calculate_performance_kpis ops df = Inr kpis \<and> has_column df ''calls_offered''
        \<and> has_column df ''calls_answered''"
  then obtain k1 k2 k3 k4 where k1: "aht_kpis ops df [] = Inr k1"
    and k2: "fcr_kpis ops df k1 = Inr k2" and k3: "service_level_kpis ops df k2 = Inr k3"
    and k4: "occupancy_kpis ops df k3 = Inr k4" and k5: "adherence_kpis ops df k4 = Inr kpis"
    by (auto simp: calculate_performance_kpis_def bind_err_def split: sum.splits)
  from service_level_kpis_value [OF k3] a obtain v where
    g: "guarded_ratio ops df ''calls_answered'' ''calls_offered'' = Inr v"
    and m3: "map_of k3 ''service_level'' = Some v" by blast
  have "map_of kpis ''service_level'' = Some v"
    using occupancy_kpis_keeps [OF k4] adherence_kpis_keeps [OF k5] m3 by simp
  with guarded_ratio_Inr [OF g]
  show "\<exists>offered. r_sum ops df ''calls_offered'' = Inr (Num offered) \<and>
           (if fgt offered (Fin 0)
            then \<exists>answered. r_sum ops df ''calls_answered'' = Inr (Num answered) \<and>
                   map_of kpis ''service_level'' = Some (Num (r_div ops answered offered))
            else map_of kpis ''service_level'' = Some (Num (Fin 0)))"
    by (auto split: if_splits)
qed

theorem service_level_guarded_witness:
  "\<not> is_zero_division (calculate_performance_kpis exact_reductions
      \<lparr>nrows = 2, cols = [(''calls_offered'', NumCol [Some 100, Some 100]),
                          (''calls_answered'', NumCol [Some 50, Some 50])]\<rparr>)
   \<and> calculate_performance_kpis exact_reductions
      \<lparr>nrows = 2, cols = [(''calls_offered'', NumCol [Some 100, Some 100]),
                          (''calls_answered'', NumCol [Some 50, Some 50])]\<rparr>
     = Inr [(''service_level'', Num (Fin (1 / 2)))]
   \<and> calculate_performance_kpis exact_reductions
      \<lparr>nrows = 2, cols = [(''calls_offered'', NumCol [Some 0, Some 0]),
                          (''calls_answered'', NumCol [Some 0, Some 0])]\<rparr>
     = Inr [(''service_level'', Num (Fin 0))]"
proof -
  let ?df = "\<lparr>nrows = 2, cols = [(''calls_offered'', NumCol [Some 100, Some 100]),
                          (''calls_answered'', NumCol [Some 50, Some 50])]\<rparr>"
  let ?dz = "\<lparr>nrows = 2, cols = [(''calls_offered'', NumCol [Some 0, Some 0]),
                          (''calls_answered'', NumCol [Some 0, Some 0])]\<rparr>"
  have has: "has_column ?df ''calls_offered''" "has_column ?df ''calls_answered''"
    "has_column ?dz ''calls_offered''" "has_column ?dz ''calls_answered''"
    by (simp_all add: has_column_def column_names_def)
  have sums: "r_sum exact_reductions ?df ''calls_offered'' = Inr (Num (Fin 200))"
    "r_sum exact_reductions ?df ''calls_answered'' = Inr (Num (Fin 100))"
    "r_sum exact_reductions ?dz ''calls_offered'' = Inr (Num (Fin 0))"
    by (simp_all add: exact_reductions_def exact_reduction_def numeric_series_def get_column_def
        numeric_values_def bind_err_def of_opt_def)
  have safe: "reductions_divide_safely exact_reductions ?df"
    by (simp add: reductions_divide_safely_def performance_columns_def exact_reductions_def
        exact_reduction_def numeric_series_def get_column_def numeric_values_def bind_err_def
        is_zero_division_def)
  have num: "reductions_numeric exact_reductions ?df" "reductions_numeric exact_reductions ?dz"
    by (simp_all add: reductions_numeric_def performance_columns_def has_column_def
        column_names_def exact_reductions_def exact_reduction_def numeric_series_def
        get_column_def numeric_values_def bind_err_def is_number_def)
  have ev: "calculate_performance_kpis exact_reductions ?df = Inr [(''service_level'', Num (Fin (1 / 2)))]"
    "calculate_performance_kpis exact_reductions ?dz = Inr [(''service_level'', Num (Fin 0))]"
    by (simp_all add: calculate_performance_kpis_def bind_err_def aht_kpis_def fcr_kpis_def
        service_level_kpis_def occupancy_kpis_def adherence_kpis_def guarded_ratio_def
        has_column_def column_names_def py_gt_zero_def py_div_def exact_reductions_def
        exact_reduction_def numeric_series_def get_column_def numeric_values_def of_opt_def)
  have "map_of [(''service_level'', Num (Fin (1 / 2)))] ''service_level''
      = Some (Num (r_div exact_reductions (Fin 100) (Fin 200)))"
    using service_level_guarded [of exact_reductions ?df "[(''service_level'', Num (Fin (1 / 2)))]"]
      ev(1) has(1,2) sums(1,2) by simp
  then show ?thesis
    using service_level_guarded [of exact_reductions ?df] safe num(1) ev by simp
qed

text \<open>
  C1 as stated fails where the offered calls sum to a negative number: the guard is
  \<open>> 0\<close>, so the service level is 0 there and not the quotient.
\<close>

theorem service_level_negative_counterexample:
  "calculate_performance_kpis exact_reductions
     \<lparr>nrows = 1, cols = [(''calls_offered'', NumCol [Some (- 2)]),
                          (''calls_answered'', NumCol [Some 1])]\<rparr>
   = Inr [(''service_level'', Num (Fin 0))]
   \<and> r_sum exact_reductions
     \<lparr>nrows = 1, cols = [(''calls_offered'', NumCol [Some (- 2)]),
                          (''calls_answered'', NumCol [Some 1])]\<rparr> ''calls_offered''
     = Inr (Num (Fin (- 2)))
   \<and> r_sum exact_reductions
     \<lparr>nrows = 1, cols = [(''calls_offered'', NumCol [Some (- 2)]),
                          (''calls_answered'', NumCol [Some 1])]\<rparr> ''calls_answered''
     = Inr (Num (Fin 1))
   \<and> Num (Fin 0) \<noteq> Num (r_div exact_reductions (Fin 1) (Fin (- 2)))"
  by (simp add: calculate_performance_kpis_def bind_err_def aht_kpis_def fcr_kpis_def
      service_level_kpis_def occupancy_kpis_def adherence_kpis_def guarded_ratio_def
      has_column_def column_names_def py_gt_zero_def py_div_def exact_reductions_def
      exact_reduction_def numeric_series_def get_column_def numeric_values_def of_opt_def)

subsection \<open>Trends\<close>

text \<open>
  C6. When the date column or the metric column is absent from the table, \<open>analyze_trends\<close>
  fails before any resampling: it raises the error "Columns d or m not found" (a Python
  \<open>ValueError\<close>, the column-not-found error of the specification).
\<close>

theorem analyze_trends_missing_column:
  "\<not> has_column df date_column \<or> \<not> has_column df metric_column \<Longrightarrow>
   analyze_trends resample df date_column metric_column period =
     Inl (ValueError (''Columns '' @ date_column @ '' or '' @ metric_column @ '' not found''))"
  by (simp add: analyze_trends_def)

theorem analyze_trends_missing_column_witness:
  "analyze_trends (\<lambda>df d m p. Inr (nrows df))
     \<lparr>nrows = 1, cols = [(''date'', ObjCol [Some ''2024-01-01''])]\<rparr> ''date'' ''aht'' ''D''
   = Inl (ValueError ''Columns date or aht not found'')"
  using analyze_trends_missing_column
    [of "\<lparr>nrows = 1, cols = [(''date'', ObjCol [Some ''2024-01-01''])]\<rparr>" "''date''" "''aht''"
        "\<lambda>df d m p. Inr (nrows df)" "''D''"]
  by (simp add: has_column_def column_names_def)

subsection \<open>Comparison with the targets\<close>

lemma compare_loop_map_of:
  "distinct (map fst kpis) \<Longrightarrow>
   map_of (compare_loop targets kpis acc) name =
     (case map_of kpis name of
        None \<Rightarrow> map_of acc name
      | Some v \<Rightarrow> (case targets (target_key name) of
                    None \<Rightarrow> map_of acc name
                  | Some t \<Rightarrow> Some (compare_one v t)))"
proof (induction kpis arbitrary: acc)
  case Nil
  then show ?case by simp
next
  case (Cons kv kpis)
  obtain k v where kv: "kv = (k, v)" by (cases kv)
  from Cons.prems kv have d: "distinct (map fst kpis)" and nk: "k \<notin> fst ` set kpis" by auto
  from nk have none: "map_of kpis k = None" by (simp add: map_of_eq_None_iff)
  show ?case
  proof (cases "name = k")
    case True
    have IH': "\<And>acc. map_of (compare_loop targets kpis acc) k = map_of acc k"
      using Cons.IH [OF d] none unfolding True by simp
    show ?thesis
      unfolding True by (simp add: kv IH' update_conv split: option.splits)
  next
    case False
    then show ?thesis
      by (simp add: kv Cons.IH [OF d] update_conv split: option.splits)
  qed
qed


text \<open>
  C7. For a KPI dictionary and a category, the result of \<open>compare_to_targets\<close> has an entry
  for an indicator exactly when the indicator is in the dictionary and its name, with
  \<open>_avg\<close> and \<open>_rate\<close> removed, is a key of the category's thresholds; the target of
  the entry is that threshold, the delta is value minus target, the percentage delta is 0
  when the target is 0, and \<open>meets_target\<close> holds iff the value is at least the target.
\<close>

theorem compare_to_targets_spec:
  assumes "distinct (map fst kpis)"
  shows "map_of (compare_to_targets cfg kpis kpi_type) name =
     (case map_of kpis name of
        None \<Rightarrow> None
      | Some v \<Rightarrow>
         (case (case thresholds cfg kpi_type of None \<Rightarrow> Map.empty | Some t \<Rightarrow> t) (target_key name) of
            None \<Rightarrow> None
          | Some t \<Rightarrow>
             Some \<lparr>actual = v, target = t, delta = fsub v (Fin t),
                   pct_delta = (if t = 0 then Fin 0 else fmul (fdiv (fsub v (Fin t)) (Fin t)) (Fin 100)),
                   meets_target = fge v (Fin t)\<rparr>))"
  by (simp add: compare_to_targets_def compare_loop_map_of [OF assms] compare_one_def Let_def
      split: option.splits)

theorem compare_to_targets_spec_witness:
  "map_of (compare_to_targets
      \<lparr>outlier_std_cfg = None, min_data_points_cfg = None, correlation_threshold_cfg = None,
       kpi_thresholds_cfg = Some [''performance'' \<mapsto> [''aht'' \<mapsto> 300, ''fcr'' \<mapsto> 0]]\<rparr>
      [(''aht'', Fin 330), (''fcr_rate'', Fin (1 / 2)), (''aht_median'', Fin 330)]
      ''performance'') ''aht''
   = Some \<lparr>actual = Fin 330, target = 300, delta = Fin 30, pct_delta = Fin 10,
           meets_target = True\<rparr>
   \<and> map_of (compare_to_targets
      \<lparr>outlier_std_cfg = None, min_data_points_cfg = None, correlation_threshold_cfg = None,
       kpi_thresholds_cfg = Some [''performance'' \<mapsto> [''aht'' \<mapsto> 300, ''fcr'' \<mapsto> 0]]\<rparr>
      [(''aht'', Fin 330), (''fcr_rate'', Fin (1 / 2)), (''aht_median'', Fin 330)]
      ''performance'') ''fcr_rate''
   = Some \<lparr>actual = Fin (1 / 2), target = 0, delta = Fin (1 / 2), pct_delta = Fin 0,
           meets_target = True\<rparr>
   \<and> map_of (compare_to_targets
      \<lparr>outlier_std_cfg = None, min_data_points_cfg = None, correlation_threshold_cfg = None,
       kpi_thresholds_cfg = Some [''performance'' \<mapsto> [''aht'' \<mapsto> 300, ''fcr'' \<mapsto> 0]]\<rparr>
      [(''aht'', Fin 330), (''fcr_rate'', Fin (1 / 2)), (''aht_median'', Fin 330)]
      ''performance'') ''aht_median''
   = None"
proof -
  have k1: "target_key ''aht'' = ''aht''" by code_simp
  have k2: "target_key ''fcr_rate'' = ''fcr''" by code_simp
  have k3: "target_key ''aht_median'' = ''aht_median''" by code_simp
  have d: "distinct (map fst [(''aht'', Fin 330), (''fcr_rate'', Fin (1 / 2)),
                               (''aht_median'', Fin 330)])" by simp
  show ?thesis
    using compare_to_targets_spec [OF d, where name = "''aht''" and kpi_type = "''performance''"]
      compare_to_targets_spec [OF d, where name = "''fcr_rate''" and kpi_type = "''performance''"]
      compare_to_targets_spec [OF d, where name = "''aht_median''" and kpi_type = "''performance''"]
    by (simp add: thresholds_def k1 k2 k3 fsub_def fge_def)
qed

subsection \<open>Sums of squared deviations\<close>

lemma ssq_dev_zero_mean:
  assumes "ssq_dev xs = 0" and "x \<in> set xs"
  shows "x = mean_of xs"
proof -
  have nonneg: "\<And>y. y \<in> set (map (\<lambda>x. (x - mean_of xs)\<^sup>2) xs) \<Longrightarrow> 0 \<le> y" by auto
  from assms(1) have "\<forall>y \<in> set (map (\<lambda>x. (x - mean_of xs)\<^sup>2) xs). y = 0"
    unfolding ssq_dev_def using sum_list_nonneg_eq_0_iff [OF nonneg] by blast
  with assms(2) have "(x - mean_of xs)\<^sup>2 = 0" by simp
  then show ?thesis by simp
qed

lemma ssq_dev_nonneg: "0 \<le> ssq_dev xs"
  unfolding ssq_dev_def by (rule sum_list_nonneg) auto

subsection \<open>Outliers\<close>

lemma update_set_cases:
  "(k', v') \<in> set (AList.update k v al) \<Longrightarrow> (k', v') = (k, v) \<or> (k', v') \<in> set al"
  by (induction al) (auto split: if_splits)

lemma detect_loop_lengths:
  assumes "\<forall>(n, c) \<in> set (cols df). column_length c = nrows df"
    and "\<forall>(k, m) \<in> set out. length m = nrows df"
  shows "\<forall>(k, m) \<in> set (detect_loop limit df cs out). length m = nrows df"
  using assms(2)
proof (induction cs arbitrary: out)
  case Nil
  then show ?case by simp
next
  case (Cons col cs)
  show ?case
  proof (cases "get_column df col")
    case None
    with Cons show ?thesis by simp
  next
    case (Some c)
    then have "(col, c) \<in> set (cols df)" by (simp add: get_column_def map_of_SomeD)
    with assms(1) have len: "column_length c = nrows df" by auto
    show ?thesis
    proof (cases "numeric_values c")
      case (Inl e)
      with Some Cons show ?thesis by simp
    next
      case (Inr vs)
      with len have "length vs = nrows df"
        by (cases c) (auto simp: numeric_values_def column_length_def)
      then have "\<forall>(k, m) \<in> set (AList.update col (outlier_mask limit vs) out). length m = nrows df"
        using Cons.prems by (auto simp: outlier_mask_def dest!: update_set_cases)
      from Cons.IH [OF this] Some Inr show ?thesis by simp
    qed
  qed
qed

lemma flagged_Cons: "flagged ((c, m) # rest) i = ((i < length m \<and> m ! i) \<or> flagged rest i)"
  by (simp add: flagged_def)

lemma mask_loop_nth:
  assumes "\<forall>(k, m) \<in> set outs. length m = length keep"
  shows "mask_loop outs keep = map (\<lambda>i. keep ! i \<and> \<not> flagged outs i) [0..<length keep]"
  using assms
proof (induction outs arbitrary: keep)
  case Nil
  then show ?case by (simp add: flagged_def map_nth)
next
  case (Cons km outs)
  obtain k m where km: "km = (k, m)" by (cases km)
  let ?keep = "map2 (\<lambda>m out. m \<and> \<not> out) keep m"
  from Cons.prems km have lm: "length m = length keep" by simp
  then have lk: "length ?keep = length keep" by simp
  from Cons.prems lk have "\<forall>(k, m) \<in> set outs. length m = length ?keep" by auto
  from Cons.IH [OF this] have
    "mask_loop outs ?keep = map (\<lambda>i. ?keep ! i \<and> \<not> flagged outs i) [0..<length keep]"
    by (simp only: lk)
  also have "\<dots> = map (\<lambda>i. keep ! i \<and> \<not> flagged ((k, m) # outs) i) [0..<length keep]"
    by (rule map_cong) (auto simp: flagged_Cons lm)
  finally show ?case by (simp add: km)
qed

lemma select_pick:
  "length keep = length xs \<Longrightarrow>
   select keep xs = pick (filter (\<lambda>i. keep ! i) [0..<length xs]) xs"
proof (induction xs arbitrary: keep)
  case Nil
  then show ?case by (simp add: select_def pick_def)
next
  case (Cons x xs)
  then obtain b bs where keep: "keep = b # bs" and len: "length bs = length xs"
    by (cases keep) auto
  have upt: "[0..<length (x # xs)] = 0 # map Suc [0..<length xs]"
    by (simp add: upt_conv_Cons map_Suc_upt del: upt_Suc)
  have "select bs xs = pick (filter (\<lambda>i. bs ! i) [0..<length xs]) xs" by (rule Cons.IH [OF len])
  then have tl: "map fst (filter snd (zip xs bs))
      = map (\<lambda>i. (x # xs) ! i) (filter (\<lambda>i. (b # bs) ! i) (map Suc [0..<length xs]))"
    by (simp add: select_def pick_def filter_map comp_def)
  show ?case unfolding keep upt select_def pick_def using tl by simp
qed

lemma select_column_pick:
  assumes "length keep = column_length c"
  shows "select_column keep c = pick_column (filter (\<lambda>i. keep ! i) [0..<length keep]) c"
  using assms
  by (cases c) (simp_all add: select_column_def pick_column_def column_length_def select_pick)

text \<open>
  C5. For every table and set of checked columns, \<open>remove_outliers\<close> returns exactly the
  rows that \<open>detect_outliers\<close>, on the same table and columns, flags in no checked column,
  in their original order: the rows at the positions \<open>i\<close> with no mask true at \<open>i\<close>.
\<close>

theorem remove_outliers_keeps_unflagged:
  assumes "wf_table df"
  shows "remove_outliers cfg df columns =
     rows_at_positions df
       (filter (\<lambda>i. \<not> flagged (detect_outliers cfg df columns) i) [0..<nrows df])"
proof -
  let ?outs = "detect_outliers cfg df columns"
  let ?n = "nrows df"
  let ?keep = "mask_loop ?outs (replicate ?n True)"
  let ?idxs = "filter (\<lambda>i. \<not> flagged ?outs i) [0..<?n]"
  from assms have cl: "\<forall>(n, c) \<in> set (cols df). column_length c = ?n"
    by (simp add: wf_table_def list_all_iff)
  have lens: "\<forall>(k, m) \<in> set ?outs. length m = ?n"
    unfolding detect_outliers_def Let_def
    by (rule detect_loop_lengths [OF cl]) simp
  then have "\<forall>(k, m) \<in> set ?outs. length m = length (replicate ?n True)" by simp
  from mask_loop_nth [OF this]
  have "?keep = map (\<lambda>i. replicate ?n True ! i \<and> \<not> flagged ?outs i) [0..<?n]" by simp
  also have "\<dots> = map (\<lambda>i. \<not> flagged ?outs i) [0..<?n]"
    by (rule map_cong) simp_all
  finally have keep: "?keep = map (\<lambda>i. \<not> flagged ?outs i) [0..<?n]" .
  then have lk: "length ?keep = ?n" by simp
  have idxs: "filter (\<lambda>i. ?keep ! i) [0..<length ?keep] = ?idxs"
    unfolding lk by (rule filter_cong) (simp_all add: keep)
  have cols_eq: "map (\<lambda>(n, c). (n, select_column ?keep c)) (cols df)
      = map (\<lambda>(n, c). (n, pick_column ?idxs c)) (cols df)"
  proof (rule map_cong)
    fix nc assume nc: "nc \<in> set (cols df)"
    obtain n c where p: "nc = (n, c)" by (cases nc)
    with nc cl have "column_length c = ?n" by auto
    with lk have "length ?keep = column_length c" by simp
    from select_column_pick [OF this] idxs p
    show "(case nc of (n, c) \<Rightarrow> (n, select_column ?keep c))
        = (case nc of (n, c) \<Rightarrow> (n, pick_column ?idxs c))" by simp
  qed simp
  have "filter (\<lambda>b. b) (take ?n ?keep) = map (\<lambda>i. \<not> flagged ?outs i) ?idxs"
    using lk by (simp add: keep filter_map comp_def)
  then have rows_eq: "length (filter (\<lambda>b. b) (take ?n ?keep)) = length ?idxs" by simp
  show ?thesis
    unfolding remove_outliers_def Let_def select_rows_def rows_at_positions_def
    using cols_eq rows_eq by simp
qed

theorem remove_outliers_keeps_unflagged_witness:
  "remove_outliers
     \<lparr>outlier_std_cfg = Some 1, min_data_points_cfg = None, correlation_threshold_cfg = None,
      kpi_thresholds_cfg = None\<rparr>
     \<lparr>nrows = 4, cols = [(''handle_time'', NumCol [Some 1, Some 1, Some 1, Some 5]),
                         (''agent'', ObjCol [Some ''a'', Some ''b'', Some ''c'', Some ''d''])]\<rparr>
     None
   = \<lparr>nrows = 3, cols = [(''handle_time'', NumCol [Some 1, Some 1, Some 1]),
                         (''agent'', ObjCol [Some ''a'', Some ''b'', Some ''c''])]\<rparr>"
proof -
  let ?cfg = "\<lparr>outlier_std_cfg = Some 1, min_data_points_cfg = None,
      correlation_threshold_cfg = None, kpi_thresholds_cfg = None\<rparr>"
  let ?df = "\<lparr>nrows = 4, cols = [(''handle_time'', NumCol [Some 1, Some 1, Some 1, Some 5]),
                         (''agent'', ObjCol [Some ''a'', Some ''b'', Some ''c'', Some ''d''])]\<rparr>"
  have wf: "wf_table ?df" by (simp add: wf_table_def column_names_def column_length_def)
  have sq: "sqrt 4 = 2" using real_sqrt_abs [of 2] by simp
  have det: "detect_outliers ?cfg ?df None = [(''handle_time'', [False, False, False, True])]"
    by (simp add: detect_outliers_def numeric_columns_def get_column_def numeric_values_def
        outlier_mask_def outlier_std_def abs_zscore_def series_mean_def series_std_def
        ssq_dev_def mean_of_def of_opt_def fsub_def sq)
  have idx: "filter (\<lambda>i. \<not> flagged [(''handle_time'', [False, False, False, True])] i) [0..<4]
      = [0, 1, 2]"
  proof -
    have u: "[0..<4] = [0, 1, 2, 3::nat]" by code_simp
    show ?thesis unfolding u by (simp add: flagged_def)
  qed
  show ?thesis
    using remove_outliers_keeps_unflagged [OF wf, of ?cfg None]
    by (simp add: det idx rows_at_positions_def pick_column_def pick_def)
qed

subsection \<open>Quality report\<close>

lemma dropna_map_Some: "dropna (map Some xs) = xs"
  by (induction xs) simp_all

lemma series_stats_dropna: "series_stats (map Some (dropna vs)) = series_stats vs"
  by (simp add: series_stats_def series_mean_def series_median_def series_std_def
      series_min_def series_max_def dropna_map_Some)

lemma series_stats_no_values:
  "dropna vs = [] \<Longrightarrow> series_stats vs =
     \<lparr>stat_mean = NaN, stat_median = NaN, stat_std = NaN, stat_min = NaN, stat_max = NaN\<rparr>"
  by (simp add: series_stats_def series_mean_def series_median_def series_std_def
      series_min_def series_max_def of_opt_def)

lemma numeric_columns_iff:
  assumes "distinct (column_names df)"
  shows "name \<in> set (numeric_columns df) \<longleftrightarrow> (\<exists>vs. get_column df name = Some (NumCol vs))"
proof
  assume "name \<in> set (numeric_columns df)"
  then obtain c where in_cols: "(name, c) \<in> set (cols df)" and num: "case c of NumCol _ \<Rightarrow> True | _ \<Rightarrow> False"
    by (auto simp: numeric_columns_def)
  from num obtain vs where "c = NumCol vs" by (cases c) simp_all
  with in_cols assms have "map_of (cols df) name = Some (NumCol vs)"
    by (simp add: column_names_def)
  then show "\<exists>vs. get_column df name = Some (NumCol vs)" by (auto simp: get_column_def)
next
  assume "\<exists>vs. get_column df name = Some (NumCol vs)"
  then obtain vs where "map_of (cols df) name = Some (NumCol vs)" by (auto simp: get_column_def)
  then have "(name, NumCol vs) \<in> set (cols df)" by (rule map_of_SomeD)
  then show "name \<in> set (numeric_columns df)" by (force simp: numeric_columns_def)
qed

lemma stats_loop_map_of:
  assumes "\<forall>col \<in> set cs. \<exists>vs. get_column df col = Some (NumCol vs)"
  shows "\<exists>stats. stats_loop df cs acc = Inr stats \<and>
     (\<forall>name. map_of stats name =
        (if name \<in> set cs
         then (case get_column df name of Some (NumCol vs) \<Rightarrow> Some (series_stats vs) | _ \<Rightarrow> None)
         else map_of acc name))"
  using assms
proof (induction cs arbitrary: acc)
  case Nil
  then show ?case by simp
next
  case (Cons col cs)
  then obtain vs where vs: "get_column df col = Some (NumCol vs)" by auto
  then have ns: "numeric_series df col = Inr vs"
    by (simp add: numeric_series_def numeric_values_def)
  from Cons.prems have "\<forall>col \<in> set cs. \<exists>vs. get_column df col = Some (NumCol vs)" by simp
  from Cons.IH [OF this, of "AList.update col (series_stats vs) acc"]
  obtain stats where st: "stats_loop df cs (AList.update col (series_stats vs) acc) = Inr stats"
    and m: "\<forall>name. map_of stats name =
        (if name \<in> set cs
         then (case get_column df name of Some (NumCol vs) \<Rightarrow> Some (series_stats vs) | _ \<Rightarrow> None)
         else map_of (AList.update col (series_stats vs) acc) name)" by blast
  have "stats_loop df (col # cs) acc = Inr stats" by (simp add: ns bind_err_def st)
  moreover have "\<forall>name. map_of stats name =
        (if name \<in> set (col # cs)
         then (case get_column df name of Some (NumCol vs) \<Rightarrow> Some (series_stats vs) | _ \<Rightarrow> None)
         else map_of acc name)"
    using m vs by (auto simp: update_conv)
  ultimately show ?case by blast
qed

text \<open>
  C8. For every table, \<open>check_data_quality\<close> succeeds. Its numeric statistics have an entry
  for exactly the numeric columns; the entry is computed from the non-missing values alone
  (it is that of the column with its missing values deleted); and for a numeric column
  with no value at all the mean, median, standard deviation, minimum and maximum are all
  undefined (NaN), not zero. A column that is not numeric has no entry.
\<close>

theorem check_data_quality_stats:
  assumes "wf_table df"
  shows "\<exists>report. check_data_quality df = Inr report \<and>
     (\<forall>name. map_of (numeric_stats report) name =
        (case get_column df name of
           Some (NumCol vs) \<Rightarrow> Some (series_stats (map Some (dropna vs)))
         | _ \<Rightarrow> None)) \<and>
     (\<forall>name vs. get_column df name = Some (NumCol vs) \<and> dropna vs = [] \<longrightarrow>
        map_of (numeric_stats report) name =
          Some \<lparr>stat_mean = NaN, stat_median = NaN, stat_std = NaN, stat_min = NaN,
                stat_max = NaN\<rparr>)"
proof -
  from assms have d: "distinct (column_names df)" by (simp add: wf_table_def)
  have "\<forall>col \<in> set (numeric_columns df). \<exists>vs. get_column df col = Some (NumCol vs)"
    using numeric_columns_iff [OF d] by blast
  from stats_loop_map_of [OF this, of "[]"]
  obtain stats where st: "stats_loop df (numeric_columns df) [] = Inr stats"
    and m: "\<forall>name. map_of stats name =
        (if name \<in> set (numeric_columns df)
         then (case get_column df name of Some (NumCol vs) \<Rightarrow> Some (series_stats vs) | _ \<Rightarrow> None)
         else None)" by auto
  have m': "map_of stats name =
        (case get_column df name of
           Some (NumCol vs) \<Rightarrow> Some (series_stats (map Some (dropna vs)))
         | _ \<Rightarrow> None)" for name
  proof (cases "name \<in> set (numeric_columns df)")
    case True
    with m show ?thesis
      by (auto simp: series_stats_dropna split: option.splits column.splits)
  next
    case False
    with numeric_columns_iff [OF d, of name] m show ?thesis
      by (auto split: option.splits column.splits)
  qed
  have "\<exists>report. check_data_quality df = Inr report \<and> numeric_stats report = stats"
    by (simp add: check_data_quality_def bind_err_def st)
  then obtain report where r: "check_data_quality df = Inr report" "numeric_stats report = stats"
    by blast
  have "\<forall>name vs. get_column df name = Some (NumCol vs) \<and> dropna vs = [] \<longrightarrow>
        map_of stats name =
          Some \<lparr>stat_mean = NaN, stat_median = NaN, stat_std = NaN, stat_min = NaN,
                stat_max = NaN\<rparr>"
    using m' by (auto simp: series_stats_dropna series_stats_no_values)
  with r m' show ?thesis by auto
qed

theorem check_data_quality_stats_witness:
  "\<exists>report. check_data_quality
      \<lparr>nrows = 3, cols = [(''qa_score'', NumCol [Some 2, None, Some 4]),
                          (''csat_score'', NumCol [None, None, None]),
                          (''agent'', ObjCol [Some ''a'', Some ''b'', None])]\<rparr> = Inr report \<and>
     map_of (numeric_stats report) ''qa_score'' =
       Some \<lparr>stat_mean = Fin 3, stat_median = Fin 3, stat_std = Fin (sqrt 2), stat_min = Fin 2,
             stat_max = Fin 4\<rparr> \<and>
     map_of (numeric_stats report) ''csat_score'' =
       Some \<lparr>stat_mean = NaN, stat_median = NaN, stat_std = NaN, stat_min = NaN,
             stat_max = NaN\<rparr> \<and>
     map_of (numeric_stats report) ''agent'' = None"
proof -
  let ?df = "\<lparr>nrows = 3, cols = [(''qa_score'', NumCol [Some 2, None, Some 4]),
                          (''csat_score'', NumCol [None, None, None]),
                          (''agent'', ObjCol [Some ''a'', Some ''b'', None])]\<rparr>"
  have wf: "wf_table ?df" by (simp add: wf_table_def column_names_def column_length_def)
  have qa: "series_stats (map Some (dropna [Some 2, None, Some 4])) =
       \<lparr>stat_mean = Fin 3, stat_median = Fin 3, stat_std = Fin (sqrt 2), stat_min = Fin 2,
             stat_max = Fin 4\<rparr>"
    by (simp add: series_stats_def series_mean_def series_median_def series_std_def
        series_min_def series_max_def of_opt_def mean_of_def ssq_dev_def)
  from check_data_quality_stats [OF wf] obtain report where
    r: "check_data_quality ?df = Inr report"
    and m: "\<forall>name. map_of (numeric_stats report) name =
        (case get_column ?df name of
           Some (NumCol vs) \<Rightarrow> Some (series_stats (map Some (dropna vs)))
         | _ \<Rightarrow> None)"
    and e: "\<forall>name vs. get_column ?df name = Some (NumCol vs) \<and> dropna vs = [] \<longrightarrow>
        map_of (numeric_stats report) name =
          Some \<lparr>stat_mean = NaN, stat_median = NaN, stat_std = NaN, stat_min = NaN,
                stat_max = NaN\<rparr>"
    by blast
  have "map_of (numeric_stats report) ''qa_score'' =
       Some \<lparr>stat_mean = Fin 3, stat_median = Fin 3, stat_std = Fin (sqrt 2), stat_min = Fin 2,
             stat_max = Fin 4\<rparr>"
    using m [rule_format, of "''qa_score''"] qa by (simp add: get_column_def)
  moreover have "map_of (numeric_stats report) ''csat_score'' =
       Some \<lparr>stat_mean = NaN, stat_median = NaN, stat_std = NaN, stat_min = NaN,
             stat_max = NaN\<rparr>"
    using e [rule_format, of "''csat_score''" "[None, None, None]"] by (simp add: get_column_def)
  moreover have "map_of (numeric_stats report) ''agent'' = None"
    using m [rule_format, of "''agent''"] by (simp add: get_column_def)
  ultimately show ?thesis using r by blast
qed

subsection \<open>Anomalies\<close>

lemma length_dropna_le: "length (dropna vs) \<le> length vs"
  by (induction vs rule: dropna.induct) simp_all

lemma length_dropna_eq_iff: "length (dropna vs) = length vs \<longleftrightarrow> None \<notin> set vs"
proof (induction vs rule: dropna.induct)
  case 1
  then show ?case by simp
next
  case (2 vs)
  have "length (dropna vs) \<le> length vs" by (rule length_dropna_le)
  then show ?case by simp
next
  case (3 x vs)
  then show ?case by simp
qed

lemma get_column_length:
  assumes "wf_table df" and "get_column df name = Some c"
  shows "column_length c = nrows df"
proof -
  from assms(2) have "(name, c) \<in> set (cols df)" by (simp add: get_column_def map_of_SomeD)
  with assms(1) show ?thesis by (auto simp: wf_table_def list_all_iff)
qed

text \<open>
  C10. \<open>detect_anomalies\<close> with the \<open>zscore\<close> method on a numeric column: when the
  column has a missing value, the scores are fewer than the rows and the assignment of
  the flags raises, so no table is returned; when it has none, the result is the table
  with the boolean column \<open>is_anomaly\<close> of the scores above the threshold.
\<close>

theorem detect_anomalies_zscore_missing:
  assumes "wf_table df" and "get_column df column = Some (NumCol vs)"
  shows "(None \<in> set vs \<longrightarrow>
           detect_anomalies df column ''zscore'' threshold =
             Inl (ValueError (''Length of values ('' @ string_of_nat (length (dropna vs))
                    @ '') does not match length of index ('' @ string_of_nat (nrows df) @ '')'')))
       \<and> (None \<notin> set vs \<longrightarrow>
           detect_anomalies df column ''zscore'' threshold =
             Inr (df\<lparr>cols := AList.update ''is_anomaly''
                    (BoolCol (map (\<lambda>z. fgt (fabs z) (Fin threshold)) (zscore (dropna vs))))
                    (cols df)\<rparr>))"
proof -
  from get_column_length [OF assms] have len: "length vs = nrows df"
    by (simp add: column_length_def)
  have ns: "numeric_series df column = Inr vs"
    by (simp add: numeric_series_def assms(2) numeric_values_def)
  have lz: "length (zscore (dropna vs)) = length (dropna vs)" by (simp add: zscore_def Let_def)
  show ?thesis
    using length_dropna_eq_iff [of vs] len
    by (simp add: detect_anomalies_def ns bind_err_def set_column_def column_length_def lz
        Let_def comp_def)
qed

theorem detect_anomalies_zscore_missing_witness:
  "detect_anomalies
     \<lparr>nrows = 3, cols = [(''handle_time'', NumCol [Some 1, None, Some 3])]\<rparr>
     ''handle_time'' ''zscore'' 3
   = Inl (ValueError ''Length of values (2) does not match length of index (3)'')
   \<and> detect_anomalies
     \<lparr>nrows = 2, cols = [(''handle_time'', NumCol [Some 1, Some 3])]\<rparr>
     ''handle_time'' ''zscore'' (1 / 2)
   = Inr \<lparr>nrows = 2, cols = [(''handle_time'', NumCol [Some 1, Some 3]),
                              (''is_anomaly'', BoolCol [True, True])]\<rparr>"
proof -
  have two: "string_of_nat (Suc (Suc 0)) = ''2''" and three: "string_of_nat 3 = ''3''"
    by code_simp+
  have wf1: "wf_table \<lparr>nrows = 3, cols = [(''handle_time'', NumCol [Some 1, None, Some 3])]\<rparr>"
    and wf2: "wf_table \<lparr>nrows = 2, cols = [(''handle_time'', NumCol [Some 1, Some 3])]\<rparr>"
    by (simp_all add: wf_table_def column_names_def column_length_def)
  have g1: "get_column \<lparr>nrows = 3, cols = [(''handle_time'', NumCol [Some 1, None, Some 3])]\<rparr>
      ''handle_time'' = Some (NumCol [Some 1, None, Some 3])"
    and g2: "get_column \<lparr>nrows = 2, cols = [(''handle_time'', NumCol [Some 1, Some 3])]\<rparr>
      ''handle_time'' = Some (NumCol [Some 1, Some 3])"
    by (simp_all add: get_column_def)
  have z: "zscore [1, 3] = [Fin (- 1), Fin 1]"
    by (simp add: zscore_def mean_of_def ssq_dev_def fsub_def)
  show ?thesis
    using detect_anomalies_zscore_missing [OF wf1 g1, of 3]
      detect_anomalies_zscore_missing [OF wf2 g2, of "1 / 2"]
    by (simp add: two three z)
qed

subsection \<open>Strong correlations\<close>

lemma fge_trans: "fge a b \<Longrightarrow> fge b c \<Longrightarrow> fge a c"
  by (cases a; cases b; cases c) (auto simp: fge_def)

lemma fgt_imp_fge: "fgt a b \<Longrightarrow> fge a b"
  by (cases a; cases b) (auto simp: fge_def)

lemma not_fgt_imp_fge: "a \<noteq> NaN \<Longrightarrow> b \<noteq> NaN \<Longrightarrow> \<not> fgt b a \<Longrightarrow> fge a b"
  by (cases a; cases b) (auto simp: fge_def)

lemma fge_threshold_mono: "t \<le> t' \<Longrightarrow> fge a (Fin t') \<Longrightarrow> fge a (Fin t)"
  by (cases a) (auto simp: fge_def)

lemma length_filter_mono:
  "(\<And>x. x \<in> set xs \<Longrightarrow> P x \<Longrightarrow> Q x) \<Longrightarrow> length (filter P xs) \<le> length (filter Q xs)"
  by (induction xs) auto

lemma set_insert_desc: "set (insert_desc p qs) = insert p (set qs)"
  by (induction qs) auto

lemma length_insert_desc: "length (insert_desc p qs) = Suc (length qs)"
  by (induction qs) auto

lemma set_sort_desc: "set (sort_desc ps) = set ps"
  unfolding sort_desc_def by (induction ps) (simp_all add: set_insert_desc)

lemma length_sort_desc: "length (sort_desc ps) = length ps"
  unfolding sort_desc_def by (induction ps) (simp_all add: length_insert_desc)

lemma sorted_insert_desc:
  assumes "fabs (coef p) \<noteq> NaN" and "\<forall>q \<in> set qs. fabs (coef q) \<noteq> NaN"
    and "sorted_wrt (\<lambda>p q. fge (fabs (coef p)) (fabs (coef q))) qs"
  shows "sorted_wrt (\<lambda>p q. fge (fabs (coef p)) (fabs (coef q))) (insert_desc p qs)"
  using assms(2,3)
proof (induction qs)
  case Nil
  then show ?case by simp
next
  case (Cons q qs)
  show ?case
  proof (cases "fgt (fabs (coef q)) (fabs (coef p))")
    case True
    then have "fge (fabs (coef q)) (fabs (coef p))" by (rule fgt_imp_fge)
    with Cons True show ?thesis by (auto simp: set_insert_desc)
  next
    case False
    with assms(1) Cons.prems(1) have pq: "fge (fabs (coef p)) (fabs (coef q))"
      by (simp add: not_fgt_imp_fge)
    with Cons.prems(2) have "\<forall>r \<in> set qs. fge (fabs (coef p)) (fabs (coef r))"
      by (auto intro: fge_trans)
    with pq False Cons.prems(2) show ?thesis by simp
  qed
qed

lemma sorted_sort_desc:
  assumes "\<forall>q \<in> set ps. fabs (coef q) \<noteq> NaN"
  shows "sorted_wrt (\<lambda>p q. fge (fabs (coef p)) (fabs (coef q))) (sort_desc ps)"
  using assms
proof (induction ps)
  case Nil
  then show ?case by (simp add: sort_desc_def)
next
  case (Cons p ps)
  then have "sorted_wrt (\<lambda>p q. fge (fabs (coef p)) (fabs (coef q))) (sort_desc ps)" by simp
  moreover from Cons.prems have "\<forall>q \<in> set (sort_desc ps). fabs (coef q) \<noteq> NaN"
    by (simp add: set_sort_desc)
  moreover from Cons.prems have "fabs (coef p) \<noteq> NaN" by simp
  ultimately have "sorted_wrt (\<lambda>p q. fge (fabs (coef p)) (fabs (coef q)))
      (insert_desc p (sort_desc ps))" by (simp add: sorted_insert_desc)
  then show ?case by (simp add: sort_desc_def)
qed

lemma upper_positions_bounds: "(i, j) \<in> set (upper_positions k) \<Longrightarrow> i < j \<and> j < k"
  by (auto simp: upper_positions_def)

lemma collect_strong_in_range:
  assumes "\<forall>(i, j) \<in> set pos. i < length (entries M) \<and> j < length (entries M ! i)"
  shows "collect_strong M t pos acc = Inr (acc @ strong_at M t pos)"
  using assms
proof (induction pos arbitrary: acc)
  case Nil
  then show ?case by (simp add: strong_at_def)
next
  case (Cons ij pos)
  obtain i j where ij: "ij = (i, j)" by (cases ij)
  with Cons.prems have r: "i < length (entries M)" "j < length (entries M ! i)" by auto
  from Cons.prems have "\<forall>(i, j) \<in> set pos. i < length (entries M) \<and> j < length (entries M ! i)"
    by simp
  note IH = Cons.IH [OF this]
  show ?case
    by (simp add: ij iloc_def r bind_err_def IH strong_at_def)
qed

lemma square_in_range:
  assumes "square M" and "(i, j) \<in> set (upper_positions (length (labels M)))"
  shows "i < length (entries M) \<and> j < length (entries M ! i)"
proof -
  from upper_positions_bounds [OF assms(2)] have b: "i < j" "j < length (labels M)" by auto
  with assms(1) have i: "i < length (entries M)" by (simp add: square_def)
  then have "entries M ! i \<in> set (entries M)" by simp
  with assms(1) have "length (entries M ! i) = length (labels M)"
    by (simp add: square_def list_all_iff)
  with i b show ?thesis by simp
qed

lemma find_strong_square:
  assumes "square M"
  shows "find_strong_correlations cfg M (Some t) =
     Inr (sort_desc (strong_at M t (upper_positions (length (labels M)))))"
proof -
  have "\<forall>(i, j) \<in> set (upper_positions (length (labels M))).
      i < length (entries M) \<and> j < length (entries M ! i)"
    using square_in_range [OF assms] by blast
  from collect_strong_in_range [OF this, of t "[]"]
  show ?thesis by (simp add: find_strong_correlations_def bind_err_def)
qed

lemma strong_at_members:
  assumes "(a, b, v) \<in> set (strong_at M t (upper_positions (length (labels M))))"
  shows "\<exists>i j. i < j \<and> j < length (labels M) \<and> a = labels M ! i \<and> b = labels M ! j \<and>
           v = entries M ! i ! j \<and> fge (fabs v) (Fin t)"
proof -
  from assms obtain i j where "(i, j) \<in> set (upper_positions (length (labels M)))"
    and "a = labels M ! i" "b = labels M ! j" "v = entries M ! i ! j"
    and "fge (fabs (entries M ! i ! j)) (Fin t)"
    by (auto simp: strong_at_def)
  with upper_positions_bounds [of i j "length (labels M)"] show ?thesis by blast
qed

text \<open>
  C4. For a square correlation matrix with unique column names and a threshold (the
  configured one when none is given), \<open>find_strong_correlations\<close> returns only pairs of
  distinct columns, taken from above the diagonal, whose absolute coefficient is at least
  the threshold; the pairs are in descending order of absolute coefficient; and for any
  larger threshold the result is no longer.
\<close>

theorem find_strong_correlations_spec:
  assumes "square M" and "distinct (labels M)"
    and "t = (case threshold of None \<Rightarrow> correlation_threshold cfg | Some t \<Rightarrow> t)"
  shows "\<exists>strong. find_strong_correlations cfg M threshold = Inr strong \<and>
     (\<forall>(a, b, v) \<in> set strong. a \<noteq> b \<and> fge (fabs v) (Fin t) \<and>
        (\<exists>i j. i < j \<and> j < length (labels M) \<and> a = labels M ! i \<and> b = labels M ! j \<and>
               v = entries M ! i ! j)) \<and>
     sorted_wrt (\<lambda>p q. fge (fabs (coef p)) (fabs (coef q))) strong \<and>
     (\<forall>t'. t \<le> t' \<longrightarrow>
        (\<exists>strong'. find_strong_correlations cfg M (Some t') = Inr strong' \<and>
                    length strong' \<le> length strong))"
proof -
  let ?pos = "upper_positions (length (labels M))"
  let ?strong = "sort_desc (strong_at M t ?pos)"
  have res: "find_strong_correlations cfg M (Some u) = Inr (sort_desc (strong_at M u ?pos))"
    for u by (rule find_strong_square [OF assms(1)])
  have "find_strong_correlations cfg M threshold = find_strong_correlations cfg M (Some t)"
    by (simp add: find_strong_correlations_def assms(3))
  with res have res0: "find_strong_correlations cfg M threshold = Inr ?strong" by simp
  have members: "\<forall>(a, b, v) \<in> set ?strong. a \<noteq> b \<and> fge (fabs v) (Fin t) \<and>
        (\<exists>i j. i < j \<and> j < length (labels M) \<and> a = labels M ! i \<and> b = labels M ! j \<and>
               v = entries M ! i ! j)"
  proof (clarify, intro conjI)
    fix a b v assume "(a, b, v) \<in> set ?strong"
    then have "(a, b, v) \<in> set (strong_at M t ?pos)" by (simp add: set_sort_desc)
    from strong_at_members [OF this] obtain i j where
      ij: "i < j" "j < length (labels M)" "a = labels M ! i" "b = labels M ! j"
        "v = entries M ! i ! j" "fge (fabs v) (Fin t)" by blast
    from ij(1,2) assms(2) have "labels M ! i \<noteq> labels M ! j"
      by (simp add: nth_eq_iff_index_eq)
    with ij show "a \<noteq> b" by simp
    from ij show "fge (fabs v) (Fin t)" by simp
    from ij show "\<exists>i j. i < j \<and> j < length (labels M) \<and> a = labels M ! i \<and> b = labels M ! j \<and>
               v = entries M ! i ! j" by blast
  qed
  have "\<forall>q \<in> set (strong_at M t ?pos). fabs (coef q) \<noteq> NaN"
  proof
    fix q assume q: "q \<in> set (strong_at M t ?pos)"
    obtain a b v where "q = (a, b, v)" by (cases q)
    with q strong_at_members [of a b v M t] show "fabs (coef q) \<noteq> NaN"
      by (auto simp: coef_def fge_def)
  qed
  then have sorted: "sorted_wrt (\<lambda>p q. fge (fabs (coef p)) (fabs (coef q))) ?strong"
    by (rule sorted_sort_desc)
  have mono: "length (sort_desc (strong_at M t' ?pos)) \<le> length ?strong" if "t \<le> t'" for t'
  proof -
    have "length (filter (\<lambda>(i, j). fge (fabs (entries M ! i ! j)) (Fin t')) ?pos)
        \<le> length (filter (\<lambda>(i, j). fge (fabs (entries M ! i ! j)) (Fin t)) ?pos)"
      by (rule length_filter_mono) (auto intro: fge_threshold_mono [OF that])
    then show ?thesis by (simp add: length_sort_desc strong_at_def)
  qed
  show ?thesis
    using res res0 members sorted mono by blast
qed

theorem find_strong_correlations_spec_witness:
  "\<exists>strong. find_strong_correlations
       \<lparr>outlier_std_cfg = None, min_data_points_cfg = None, correlation_threshold_cfg = None,
        kpi_thresholds_cfg = None\<rparr>
       \<lparr>labels = [''aht'', ''qa'', ''csat''],
        entries = [[Fin 1, Fin (1 / 2), Fin (- 9 / 10)],
                   [Fin (1 / 2), Fin 1, NaN],
                   [Fin (- 9 / 10), NaN, Fin 1]]\<rparr> None = Inr strong \<and>
     strong = [(''aht'', ''csat'', Fin (- 9 / 10)), (''aht'', ''qa'', Fin (1 / 2))] \<and>
     sorted_wrt (\<lambda>p q. fge (fabs (coef p)) (fabs (coef q))) strong \<and>
     (\<forall>t'. 3 / 10 \<le> t' \<longrightarrow>
        (\<exists>strong'. find_strong_correlations
           \<lparr>outlier_std_cfg = None, min_data_points_cfg = None, correlation_threshold_cfg = None,
            kpi_thresholds_cfg = None\<rparr>
           \<lparr>labels = [''aht'', ''qa'', ''csat''],
            entries = [[Fin 1, Fin (1 / 2), Fin (- 9 / 10)],
                       [Fin (1 / 2), Fin 1, NaN],
                       [Fin (- 9 / 10), NaN, Fin 1]]\<rparr> (Some t') = Inr strong' \<and>
           length strong' \<le> length strong))"
proof -
  let ?cfg = "\<lparr>outlier_std_cfg = None, min_data_points_cfg = None,
        correlation_threshold_cfg = None, kpi_thresholds_cfg = None\<rparr>"
  let ?M = "\<lparr>labels = [''aht'', ''qa'', ''csat''],
        entries = [[Fin 1, Fin (1 / 2), Fin (- 9 / 10)],
                   [Fin (1 / 2), Fin 1, NaN],
                   [Fin (- 9 / 10), NaN, Fin 1]]\<rparr>"
  have sq: "square ?M" by (simp add: square_def)
  have di: "distinct (labels ?M)" by simp
  have th: "3 / 10 = (case None of None \<Rightarrow> correlation_threshold ?cfg | Some t \<Rightarrow> t)"
    by (simp add: correlation_threshold_def)
  have up: "upper_positions (Suc (Suc (Suc 0))) = [(0, 1), (0, 2), (1, 2)]" by code_simp
  have ev: "find_strong_correlations ?cfg ?M None
      = Inr [(''aht'', ''csat'', Fin (- 9 / 10)), (''aht'', ''qa'', Fin (1 / 2))]"
    by (simp add: find_strong_correlations_def correlation_threshold_def up bind_err_def
        iloc_def fge_def sort_desc_def coef_def)
  from find_strong_correlations_spec [OF sq di th] ev show ?thesis by simp
qed

subsection \<open>Correlation matrix\<close>

lemma paired_same: "paired vs vs = map (\<lambda>x. (x, x)) (dropna vs)"
  by (induction vs rule: dropna.induct) simp_all

lemma covariation_same: "covariation xs xs = ssq_dev xs"
  by (simp add: covariation_def ssq_dev_def zip_same_conv_map comp_def power2_eq_square)

lemma pearson_coef_same:
  assumes "map fst ps = map snd ps"
  shows "pearson_coef ps = (if ps \<noteq> [] \<and> ssq_dev (map fst ps) \<noteq> 0 then Fin 1 else NaN)"
proof -
  let ?xs = "map fst ps"
  have sq: "sqrt (ssq_dev ?xs * ssq_dev ?xs) = ssq_dev ?xs"
    using ssq_dev_nonneg [of ?xs] by (simp add: real_sqrt_mult)
  have ys: "map snd ps = ?xs" by (simp add: assms)
  have "pearson_coef ps =
      (if length ps < 1 then NaN
       else if ssq_dev ?xs \<noteq> 0 then Fin (ssq_dev ?xs / ssq_dev ?xs) else NaN)"
    unfolding pearson_coef_def Let_def ys covariation_same sq by (rule refl)
  then show ?thesis by (cases "ps = []") simp_all
qed

lemma mean_of_constant:
  assumes "\<forall>x \<in> set xs. x = c" and "xs \<noteq> []"
  shows "mean_of xs = c"
proof -
  from assms(1) have "xs = replicate (length xs) c"
    by (simp add: replicate_length_same)
  then have "sum_list xs = real (length xs) * c"
    by (metis sum_list_replicate)
  with assms(2) show ?thesis by (simp add: mean_of_def)
qed

lemma ssq_dev_zero_iff:
  "ssq_dev xs = 0 \<longleftrightarrow> (\<forall>x \<in> set xs. \<forall>y \<in> set xs. x = y)"
proof
  assume "ssq_dev xs = 0"
  then have "\<forall>x \<in> set xs. x = mean_of xs" by (blast dest: ssq_dev_zero_mean)
  then show "\<forall>x \<in> set xs. \<forall>y \<in> set xs. x = y" by metis
next
  assume eq: "\<forall>x \<in> set xs. \<forall>y \<in> set xs. x = y"
  show "ssq_dev xs = 0"
  proof (cases xs)
    case Nil
    then show ?thesis by (simp add: ssq_dev_def)
  next
    case (Cons c cs)
    with eq have all: "\<forall>x \<in> set xs. x = c" by simp
    with Cons have "mean_of xs = c" by (simp add: mean_of_constant)
    with all have "map (\<lambda>x. (x - mean_of xs)\<^sup>2) xs = map (\<lambda>x. 0) xs" by simp
    then have "ssq_dev xs = sum_list (map (\<lambda>x. 0) xs)" unfolding ssq_dev_def by (rule arg_cong)
    then show ?thesis by simp
  qed
qed

lemma pair_coef_sym: "pair_coef m data i j = pair_coef m data j i"
  by (simp add: pair_coef_def max.commute min.commute)

lemma pair_coef_diag: "pair_coef m data i i = Fin 1 \<or> pair_coef m data i i = NaN"
proof (cases m)
  case Pearson
  then show ?thesis by (simp add: pair_coef_def paired_same pearson_coef_same comp_def)
next
  case Spearman
  have "map fst (zip (ranks xs) (ranks xs)) = map snd (zip (ranks xs) (ranks xs))" for xs
    by (simp add: zip_same_conv_map comp_def)
  from pearson_coef_same [OF this] Spearman show ?thesis
    by (simp add: pair_coef_def paired_same spearman_coef_def comp_def)
next
  case Kendall
  then show ?thesis by (simp add: pair_coef_def)
qed

lemma pair_coef_diag_pearson:
  "pair_coef Pearson data i i = Fin 1 \<longleftrightarrow>
     (\<exists>x y. Some x \<in> set (data ! i) \<and> Some y \<in> set (data ! i) \<and> x \<noteq> y)"
proof -
  have mem: "x \<in> set (dropna vs) \<longleftrightarrow> Some x \<in> set vs" for x and vs :: "real option list"
    by (induction vs rule: dropna.induct) auto
  have "pair_coef Pearson data i i = Fin 1 \<longleftrightarrow> ssq_dev (dropna (data ! i)) \<noteq> 0"
    by (auto simp: pair_coef_def paired_same pearson_coef_same comp_def ssq_dev_def)
  also have "\<dots> \<longleftrightarrow> (\<exists>x y. Some x \<in> set (data ! i) \<and> Some y \<in> set (data ! i) \<and> x \<noteq> y)"
    unfolding ssq_dev_zero_iff using mem [of _ "data ! i"] by blast
  finally show ?thesis .
qed

lemma entries_corr:
  "i < length nd \<Longrightarrow> j < length nd \<Longrightarrow> entries (corr m nd) ! i ! j = pair_coef m (map snd nd) i j"
  by (simp add: corr_def Let_def)

lemma calculate_correlation_matrix_Inr:
  assumes "calculate_correlation_matrix df method = Inr M"
  shows "\<exists>m. M = corr m (numeric_data df) \<and> (method = ''pearson'' \<longrightarrow> m = Pearson)"
  using assms by (auto simp: calculate_correlation_matrix_def Let_def split: if_splits)

text \<open>
  C3 (as amended). The matrix returned by \<open>calculate_correlation_matrix\<close> is symmetric:
  the entries at \<open>[i, j]\<close> and \<open>[j, i]\<close> are the same number or both undefined. Every
  diagonal entry is exactly 1.0 or undefined (NaN); with the \<open>pearson\<close> method it is 1.0
  exactly when the column has two different non-missing values.
\<close>

theorem correlation_matrix_symmetric:
  assumes "calculate_correlation_matrix df method = Inr M"
    and "i < length (labels M)" and "j < length (labels M)"
  shows "entries M ! i ! j = entries M ! j ! i
     \<and> (entries M ! i ! i = Fin 1 \<or> entries M ! i ! i = NaN)
     \<and> (method = ''pearson'' \<longrightarrow>
          (entries M ! i ! i = Fin 1 \<longleftrightarrow>
             (\<exists>x y. Some x \<in> set (snd (numeric_data df ! i)) \<and>
                    Some y \<in> set (snd (numeric_data df ! i)) \<and> x \<noteq> y)))"
proof -
  let ?nd = "numeric_data df"
  from calculate_correlation_matrix_Inr [OF assms(1)] obtain m where
    M: "M = corr m ?nd" and p: "method = ''pearson'' \<longrightarrow> m = Pearson" by blast
  from assms(2,3) M have ij: "i < length ?nd" "j < length ?nd" by (simp_all add: corr_def Let_def)
  have e: "entries M ! a ! b = pair_coef m (map snd ?nd) a b"
    if "a < length ?nd" "b < length ?nd" for a b
    using that by (simp add: M entries_corr)
  have "entries M ! i ! j = entries M ! j ! i" using ij by (simp add: e pair_coef_sym [of m _ i j])
  moreover have "entries M ! i ! i = Fin 1 \<or> entries M ! i ! i = NaN"
    using ij pair_coef_diag [of m "map snd ?nd" i] by (simp add: e)
  moreover have "method = ''pearson'' \<longrightarrow>
          (entries M ! i ! i = Fin 1 \<longleftrightarrow>
             (\<exists>x y. Some x \<in> set (snd (?nd ! i)) \<and> Some y \<in> set (snd (?nd ! i)) \<and> x \<noteq> y))"
    using ij p pair_coef_diag_pearson [of "map snd ?nd" i] by (simp add: e)
  ultimately show ?thesis by blast
qed

theorem correlation_matrix_symmetric_witness:
  "calculate_correlation_matrix
     \<lparr>nrows = 3, cols = [(''handle_time'', NumCol [Some 1, Some 2, Some 3]),
                         (''agent'', ObjCol [Some ''a'', Some ''b'', Some ''c'']),
                         (''qa_score'', NumCol [Some 3, Some 2, Some 1])]\<rparr> ''pearson''
   = Inr \<lparr>labels = [''handle_time'', ''qa_score''],
          entries = [[Fin 1, Fin (- 1)], [Fin (- 1), Fin 1]]\<rparr>
   \<and> entries \<lparr>labels = [''handle_time'', ''qa_score''],
          entries = [[Fin 1, Fin (- 1)], [Fin (- 1), Fin 1]]\<rparr> ! 0 ! 1
     = entries \<lparr>labels = [''handle_time'', ''qa_score''],
          entries = [[Fin 1, Fin (- 1)], [Fin (- 1), Fin 1]]\<rparr> ! 1 ! 0"
proof -
  let ?df = "\<lparr>nrows = 3, cols = [(''handle_time'', NumCol [Some 1, Some 2, Some 3]),
                         (''agent'', ObjCol [Some ''a'', Some ''b'', Some ''c'']),
                         (''qa_score'', NumCol [Some 3, Some 2, Some 1])]\<rparr>"
  let ?M = "\<lparr>labels = [''handle_time'', ''qa_score''],
          entries = [[Fin 1, Fin (- 1)], [Fin (- 1), Fin 1]]\<rparr>"
  have sq: "sqrt 4 = 2" using real_sqrt_abs [of 2] by simp
  have u: "[0..<Suc (Suc 0)] = [0, Suc 0]" by code_simp
  have nd: "numeric_data ?df = [(''handle_time'', [Some 1, Some 2, Some 3]),
                                (''qa_score'', [Some 3, Some 2, Some 1])]"
    by (simp add: numeric_data_def List.map_filter_simps)
  have ev: "calculate_correlation_matrix ?df ''pearson'' = Inr ?M"
    by (simp add: calculate_correlation_matrix_def nd corr_def u pair_coef_def pearson_coef_def
        covariation_def ssq_dev_def mean_of_def sq)
  from correlation_matrix_symmetric [OF ev, of 0 1] ev show ?thesis by simp
qed

text \<open>
  C3 as stated fails on a constant column: its variance is zero, the divisor of the
  coefficient is zero, and pandas leaves the diagonal entry undefined.
\<close>

theorem correlation_matrix_diagonal_counterexample:
  "calculate_correlation_matrix
     \<lparr>nrows = 2, cols = [(''calls_offered'', NumCol [Some 5, Some 5])]\<rparr> ''pearson''
   = Inr \<lparr>labels = [''calls_offered''], entries = [[NaN]]\<rparr>
   \<and> NaN \<noteq> Fin 1"
  by (simp add: calculate_correlation_matrix_def numeric_data_def List.map_filter_simps corr_def
      pair_coef_def pearson_coef_def covariation_def ssq_dev_def mean_of_def)

end
